theory Spec2Isabelle
  imports Main "HOL-Library.Mapping" "HOL-Library.AList_Mapping"
begin

section \<open>Python strings\<close>

text \<open>
  A Python \<open>str\<close> is modelled as a \<open>string\<close>: each character stands for the code
  point of the same number, so the model covers text of code points below 256. The
  functions below are the methods and builtins of \<open>str\<close> and \<open>int\<close> that
  \<open>wayr.py\<close> calls, with Python's results on such text. A builtin that raises returns
  \<open>None\<close>, and the caller decides what the exception does.
\<close>

definition is_space :: "char \<Rightarrow> bool" where
  \<comment> \<open>\<open>str.isspace\<close>, also the regular expression class \<open>\s\<close>\<close>
  "is_space c =
     (let n = (of_char c :: int)
      in (9 \<le> n \<and> n \<le> 13) \<or> (28 \<le> n \<and> n \<le> 32) \<or> n = 133 \<or> n = 160)"

definition is_digit :: "char \<Rightarrow> bool" where
  \<comment> \<open>the regular expression class \<open>\d\<close>\<close>
  "is_digit c = (let n = (of_char c :: int) in 48 \<le> n \<and> n \<le> 57)"

definition py_strip :: "string \<Rightarrow> string" where
  "py_strip s = rev (dropWhile is_space (rev (dropWhile is_space s)))"

fun startswith :: "string \<Rightarrow> string \<Rightarrow> bool" where
  "startswith s [] = True"
| "startswith [] (p # ps) = False"
| "startswith (c # cs) (p # ps) = (c = p \<and> startswith cs ps)"

fun py_in :: "string \<Rightarrow> string \<Rightarrow> bool" where
  \<comment> \<open>\<open>sub in s\<close>\<close>
  "py_in sub [] = (sub = [])"
| "py_in sub (c # cs) = (startswith (c # cs) sub \<or> py_in sub cs)"

fun split_ws_from :: "string \<Rightarrow> string \<Rightarrow> string list" where
  "split_ws_from w [] = (if w = [] then [] else [w])"
| "split_ws_from w (c # cs) =
     (if is_space c then (if w = [] then split_ws_from [] cs else w # split_ws_from [] cs)
      else split_ws_from (w @ [c]) cs)"

definition py_split :: "string \<Rightarrow> string list" where
  \<comment> \<open>\<open>s.split()\<close>\<close>
  "py_split s = split_ws_from [] s"

fun py_split_max :: "nat \<Rightarrow> string \<Rightarrow> string list" where
  \<comment> \<open>\<open>s.split(None, n)\<close>\<close>
  "py_split_max 0 s =
     (let r = dropWhile is_space s in if r = [] then [] else [r])"
| "py_split_max (Suc n) s =
     (let r = dropWhile is_space s
      in if r = [] then []
         else takeWhile (\<lambda>c. \<not> is_space c) r
              # py_split_max n (dropWhile (\<lambda>c. \<not> is_space c) r))"

fun split_on_from :: "string \<Rightarrow> char \<Rightarrow> string \<Rightarrow> string list" where
  "split_on_from w sep [] = [w]"
| "split_on_from w sep (c # cs) =
     (if c = sep then w # split_on_from [] sep cs else split_on_from (w @ [c]) sep cs)"

definition py_split_on :: "char \<Rightarrow> string \<Rightarrow> string list" where
  \<comment> \<open>\<open>s.split(sep)\<close> for a separator of one character\<close>
  "py_split_on sep s = split_on_from [] sep s"

definition py_split_on1 :: "char \<Rightarrow> string \<Rightarrow> string list" where
  \<comment> \<open>\<open>s.split(sep, 1)\<close>\<close>
  "py_split_on1 sep s =
     (if sep \<in> set s
      then [takeWhile (\<lambda>c. c \<noteq> sep) s, tl (dropWhile (\<lambda>c. c \<noteq> sep) s)]
      else [s])"

definition is_linebreak :: "char \<Rightarrow> bool" where
  "is_linebreak c =
     (let n = (of_char c :: int)
      in (10 \<le> n \<and> n \<le> 13) \<or> (28 \<le> n \<and> n \<le> 30) \<or> n = 133)"

fun splitlines_from :: "string \<Rightarrow> bool \<Rightarrow> string \<Rightarrow> string list" where
  \<comment> \<open>the flag says that the character before was a carriage return, which has ended
     the line already: a line feed after it belongs to the same line ending\<close>
  "splitlines_from w after_cr [] = (if w = [] then [] else [w])"
| "splitlines_from w after_cr (c # cs) =
     (if after_cr \<and> c = CHR 0x0A then splitlines_from w False cs
      else if is_linebreak c then w # splitlines_from [] (c = CHR 0x0D) cs
      else splitlines_from (w @ [c]) False cs)"

definition py_splitlines :: "string \<Rightarrow> string list" where
  "py_splitlines s = splitlines_from [] False s"

fun py_join :: "string \<Rightarrow> string list \<Rightarrow> string" where
  "py_join sep [] = []"
| "py_join sep [x] = x"
| "py_join sep (x # y # ys) = x @ sep @ py_join sep (y # ys)"

definition py_upper_char :: "char \<Rightarrow> char" where
  "py_upper_char c =
     (case map_of (zip ''abcdefghijklmnopqrstuvwxyz'' ''ABCDEFGHIJKLMNOPQRSTUVWXYZ'') c of
        Some u \<Rightarrow> u
      | None \<Rightarrow> c)"

definition py_upper :: "string \<Rightarrow> string" where
  \<comment> \<open>\<open>s.upper()\<close>; exact on ASCII text, other characters are left as they are. The
     code compares the result with upper-case hexadecimal text only, and no character
     beyond ASCII has an upper case made of hexadecimal digits.\<close>
  "py_upper s = map py_upper_char s"

definition basename :: "string \<Rightarrow> string" where
  \<comment> \<open>\<open>os.path.basename\<close> of \<open>posixpath\<close>: what follows the last slash\<close>
  "basename p = rev (takeWhile (\<lambda>c. c \<noteq> CHR ''/'') (rev p))"

subsection \<open>Integers and their text\<close>

definition digit_char :: "int \<Rightarrow> char" where
  \<comment> \<open>the digit of value \<open>d\<close>, for the bases 10 and 16\<close>
  "digit_char d =
     (if d = 0 then CHR ''0'' else if d = 1 then CHR ''1'' else if d = 2 then CHR ''2''
      else if d = 3 then CHR ''3'' else if d = 4 then CHR ''4'' else if d = 5 then CHR ''5''
      else if d = 6 then CHR ''6'' else if d = 7 then CHR ''7'' else if d = 8 then CHR ''8''
      else if d = 9 then CHR ''9'' else if d = 10 then CHR ''A'' else if d = 11 then CHR ''B''
      else if d = 12 then CHR ''C'' else if d = 13 then CHR ''D'' else if d = 14 then CHR ''E''
      else CHR ''F'')"

function int_digits :: "int \<Rightarrow> int \<Rightarrow> string" where
  \<comment> \<open>the digits of \<open>n \<ge> 0\<close> in base \<open>b\<close>, upper case\<close>
  "int_digits b n =
     (if b < 2 \<or> n < b then [digit_char n]
      else int_digits b (n div b) @ [digit_char (n mod b)])"
  by pat_completeness auto
termination
proof (relation "measure (\<lambda>(b, n). nat n)")
  show "wf (measure (\<lambda>(b, n). nat n))" by simp
next
  fix b n :: int
  assume a: "\<not> (b < 2 \<or> n < b)"
  then have "n div b < n" by (simp add: int_div_less_self)
  moreover have "0 < n" using a by simp
  ultimately show "((b, n div b), (b, n)) \<in> measure (\<lambda>(b, n). nat n)" by simp
qed

declare int_digits.simps [simp del]

text \<open>
  CPython 3.11 and later refuse to convert between an \<open>int\<close> and decimal text of more
  than 4300 digits (the default of \<open>sys.set_int_max_str_digits\<close>): \<open>str\<close>, an
  f-string and \<open>int\<close> raise \<open>ValueError\<close> then. Hexadecimal text has no limit. The
  length of a text is counted as an \<open>int\<close>.
\<close>

definition max_str_digits :: int where
  "max_str_digits = 4300"

fun int_length :: "'a list \<Rightarrow> int" where
  "int_length [] = 0"
| "int_length (x # xs) = 1 + int_length xs"

definition decimal :: "int \<Rightarrow> string" where
  \<comment> \<open>the decimal text of an integer of any size\<close>
  "decimal n = (if n < 0 then CHR ''-'' # int_digits 10 (- n) else int_digits 10 n)"

definition py_str :: "int \<Rightarrow> string option" where
  \<comment> \<open>\<open>str(n)\<close> and \<open>f"{n}"\<close> of an \<open>int\<close>; \<open>None\<close> is \<open>ValueError\<close>\<close>
  "py_str n =
     (if int_length (int_digits 10 \<bar>n\<bar>) > max_str_digits then None else Some (decimal n))"

definition format_04X :: "int \<Rightarrow> string" where
  \<comment> \<open>\<open>f"{n:04X}"\<close>: upper-case hexadecimal, zero-padded after the sign to width 4\<close>
  "format_04X n =
     (let ds = int_digits 16 \<bar>n\<bar>;
          sign = (if n < 0 then ''-'' else [])
      in sign @ replicate (4 - length sign - length ds) CHR ''0'' @ ds)"

definition digit_val :: "int \<Rightarrow> char \<Rightarrow> int option" where
  \<comment> \<open>the value of a digit or letter, if it is a digit of base \<open>b\<close>\<close>
  "digit_val b c =
     (let n = (of_char c :: int);
          v = (if 48 \<le> n \<and> n \<le> 57 then n - 48
               else if 97 \<le> n \<and> n \<le> 122 then n - 87
               else if 65 \<le> n \<and> n \<le> 90 then n - 55
               else b)
      in if v < b then Some v else None)"

fun parse_digits :: "int \<Rightarrow> int \<Rightarrow> bool \<Rightarrow> string \<Rightarrow> int option" where
  \<comment> \<open>digits with single underscores between them; the flag says that the character
     before was a digit\<close>
  "parse_digits b acc after_digit [] = (if after_digit then Some acc else None)"
| "parse_digits b acc after_digit (c # cs) =
     (if c = CHR ''_'' then (if after_digit then parse_digits b acc False cs else None)
      else (case digit_val b c of
              None \<Rightarrow> None
            | Some d \<Rightarrow> parse_digits b (acc * b + d) True cs))"

definition is_int_space :: "char \<Rightarrow> bool" where
  \<comment> \<open>the white space that \<open>int\<close> skips around a number: the six characters of C, and
     the other white space beyond ASCII; not the separators \<open>0x1C\<close> to \<open>0x1F\<close>\<close>
  "is_int_space c =
     (let n = (of_char c :: int) in (9 \<le> n \<and> n \<le> 13) \<or> n = 32 \<or> n = 133 \<or> n = 160)"

definition int_strip :: "string \<Rightarrow> string" where
  "int_strip s = rev (dropWhile is_int_space (rev (dropWhile is_int_space s)))"

definition py_int_base :: "int \<Rightarrow> string \<Rightarrow> int option" where
  \<comment> \<open>\<open>int(s)\<close> (base 10) and \<open>int(s, 16)\<close>; \<open>None\<close> is \<open>ValueError\<close>\<close>
  "py_int_base b s =
     (let s1 = int_strip s;
          neg = startswith s1 ''-'';
          s2 = (if startswith s1 ''-'' \<or> startswith s1 ''+'' then tl s1 else s1);
          pre = (b = 16 \<and> (startswith s2 ''0x'' \<or> startswith s2 ''0X''));
          s3 = (if pre then drop 2 s2 else s2);
          s4 = (if pre \<and> startswith s3 ''_'' then tl s3 else s3)
      in case parse_digits b 0 False s4 of
           None \<Rightarrow> None
         | Some n \<Rightarrow>
             if b \<noteq> 16 \<and> int_length (filter (\<lambda>c. c \<noteq> CHR ''_'') s4) > max_str_digits
             then None
             else Some (if neg then - n else n))"

definition py_int :: "string \<Rightarrow> int option" where
  "py_int s = py_int_base 10 s"

subsection \<open>Text files\<close>

text \<open>
  Iterating over a text file yields its lines, each with its line feed. A file is the
  text that reading it returns, or \<open>None\<close> when opening it raises.
\<close>

fun file_lines_from :: "string \<Rightarrow> string \<Rightarrow> string list" where
  "file_lines_from w [] = (if w = [] then [] else [w])"
| "file_lines_from w (c # cs) =
     (if c = CHR 0x0A then (w @ [c]) # file_lines_from [] cs
      else file_lines_from (w @ [c]) cs)"

definition file_lines :: "string \<Rightarrow> string list" where
  "file_lines content = file_lines_from [] content"

type_synonym files = "string \<Rightarrow> string option"

section \<open>Process records\<close>

text \<open>
  The dataclass \<open>ProcessInfo\<close> of \<open>wayr.py\<close>. The fields \<open>ancestry\<close> and
  \<open>children\<close> hold further \<open>ProcessInfo\<close> values, so the class is a recursive
  datatype. Optional strings are \<open>string option\<close>, the environment dictionary is a mapping,
  \<open>start_time\<close> (a naive \<open>datetime\<close>) is the number of microseconds since
  0001-01-01 00:00:00. Equality of two values is the equality the dataclass generates:
  field by field.
\<close>

datatype ProcessInfo = ProcessInfo
  (pid: int) (name: string) (ppid: int) (user: string) (cmd: string)
  (start_time: int) (cwd: "string option") (restart_count: int) (rss_kb: int)
  (source: "string option") (source_detail: "string option")
  (git_repo: "string option") (git_branch: "string option")
  (container_name: "string option") (container_image: "string option")
  (listening_addresses: "string list") (env_vars: "(string, string) mapping")
  (ancestry: "ProcessInfo list") (children: "ProcessInfo list")

text \<open>
  The constructor call \<open>ProcessInfo(pid=..., name=..., ppid=..., user=..., cmd=...,
  start_time=..., cwd=..., rss_kb=..., env_vars=...)\<close> of both snapshot providers: every
  other field takes its default.
\<close>

definition new_ProcessInfo ::
  "int \<Rightarrow> string \<Rightarrow> int \<Rightarrow> string \<Rightarrow> string \<Rightarrow> int \<Rightarrow> string option \<Rightarrow> int
    \<Rightarrow> (string, string) mapping \<Rightarrow> ProcessInfo" where
  "new_ProcessInfo p n pp u c st wd rss env =
     ProcessInfo p n pp u c st wd 0 rss None None None None None None [] env [] []"

text \<open>
  Assignment to a field of a record, \<open>proc.source = v\<close> and the like, returns the record
  with that field replaced.
\<close>

fun set_source :: "string option \<Rightarrow> ProcessInfo \<Rightarrow> ProcessInfo" where
  "set_source v (ProcessInfo a1 a2 a3 a4 a5 a6 a7 a8 a9 a10
      a11 a12 a13 a14 a15 a16 a17 a18 a19) =
     ProcessInfo a1 a2 a3 a4 a5 a6 a7 a8 a9 v
       a11 a12 a13 a14 a15 a16 a17 a18 a19"

fun set_source_detail :: "string option \<Rightarrow> ProcessInfo \<Rightarrow> ProcessInfo" where
  "set_source_detail v (ProcessInfo a1 a2 a3 a4 a5 a6 a7 a8 a9 a10
      a11 a12 a13 a14 a15 a16 a17 a18 a19) =
     ProcessInfo a1 a2 a3 a4 a5 a6 a7 a8 a9 a10
       v a12 a13 a14 a15 a16 a17 a18 a19"

fun set_container_name :: "string option \<Rightarrow> ProcessInfo \<Rightarrow> ProcessInfo" where
  "set_container_name v (ProcessInfo a1 a2 a3 a4 a5 a6 a7 a8 a9 a10
      a11 a12 a13 a14 a15 a16 a17 a18 a19) =
     ProcessInfo a1 a2 a3 a4 a5 a6 a7 a8 a9 a10
       a11 a12 a13 v a15 a16 a17 a18 a19"

fun set_container_image :: "string option \<Rightarrow> ProcessInfo \<Rightarrow> ProcessInfo" where
  "set_container_image v (ProcessInfo a1 a2 a3 a4 a5 a6 a7 a8 a9 a10
      a11 a12 a13 a14 a15 a16 a17 a18 a19) =
     ProcessInfo a1 a2 a3 a4 a5 a6 a7 a8 a9 a10
       a11 a12 a13 a14 v a16 a17 a18 a19"

fun set_listening_addresses :: "string list \<Rightarrow> ProcessInfo \<Rightarrow> ProcessInfo" where
  "set_listening_addresses v (ProcessInfo a1 a2 a3 a4 a5 a6 a7 a8 a9 a10
      a11 a12 a13 a14 a15 a16 a17 a18 a19) =
     ProcessInfo a1 a2 a3 a4 a5 a6 a7 a8 a9 a10
       a11 a12 a13 a14 a15 v a17 a18 a19"

fun set_ancestry :: "ProcessInfo list \<Rightarrow> ProcessInfo \<Rightarrow> ProcessInfo" where
  "set_ancestry v (ProcessInfo a1 a2 a3 a4 a5 a6 a7 a8 a9 a10
      a11 a12 a13 a14 a15 a16 a17 a18 a19) =
     ProcessInfo a1 a2 a3 a4 a5 a6 a7 a8 a9 a10
       a11 a12 a13 a14 a15 a16 a17 v a19"

section \<open>External commands\<close>

text \<open>
  The exceptions that the modelled code can meet. \<open>subprocess.run\<close> is the operating
  system's answer to a command line: the completed process (return code, standard output,
  standard error) or an exception. \<open>run_command\<close> turns two of the exceptions into a
  return value and lets every other one pass; its parameter \<open>cmd\<close> is \<open>argv\<close> here.
\<close>

datatype exn =
    CalledProcessError int string string
  | FileNotFoundError
  | PermissionError
  | UnicodeDecodeError
  | ValueError
  | IndexError
  | OverflowError

type_synonym completed = "int \<times> string \<times> string"

type_synonym subprocess = "string list \<Rightarrow> bool \<Rightarrow> exn + completed"

definition run_command :: "subprocess \<Rightarrow> string list \<Rightarrow> bool \<Rightarrow> exn + completed" where
  "run_command subprocess_run argv check =
     (case subprocess_run argv check of
        Inr result \<Rightarrow> Inr result
      | Inl (CalledProcessError rc out err) \<Rightarrow> Inr (rc, out, err)
      | Inl FileNotFoundError \<Rightarrow>
          (case argv of
             [] \<Rightarrow> Inl IndexError
           | c # _ \<Rightarrow> Inr (1, [], ''Command not found: '' @ c))
      | Inl e \<Rightarrow> Inl e)"

text \<open>
  The platform the tool runs on: the two module constants and the command runner. The
  output of a command is taken to be the same each time the command is run during one
  invocation of the tool.
\<close>

record platform =
  IS_MACOS :: bool
  IS_LINUX :: bool
  subprocess_run :: subprocess

section \<open>The snapshot providers\<close>

text \<open>
  \<open>try: ... except: ...\<close> around a computation that yields a value: the value, or
  the handler's value when the computation raised.
\<close>

definition try_except :: "exn + 'a \<Rightarrow> 'a \<Rightarrow> 'a" where
  "try_except body handler = (case body of Inl e \<Rightarrow> handler | Inr v \<Rightarrow> v)"

subsection \<open>The provider that reads \<open>/proc\<close>\<close>

text \<open>
  What \<open>get_process_info_linux\<close> reads. A text file is the text that \<open>read\<close>
  returns, or the exception that opening or reading raises. The owner's name is
  \<open>pwd.getpwuid(os.stat(path).st_uid).pw_name\<close>. The start-time estimate is floating
  point arithmetic: the parser of \<open>float\<close> and the arithmetic from the uptime and the
  tick count on (\<open>sysconf\<close>, the division, \<open>datetime.now() - timedelta(...)\<close>) are
  given, over any representation \<open>'f\<close> of floats. A \<open>datetime\<close> is the number of
  microseconds since 0001-01-01 00:00:00, and \<open>now\<close> is the clock's value.
\<close>

record 'f procfs =
  read_text :: "string \<Rightarrow> exn + string"
  owner_name :: "string \<Rightarrow> exn + string"
  readlink :: "string \<Rightarrow> exn + string"
  parse_float :: "string \<Rightarrow> 'f option"
  start_from_age :: "'f \<Rightarrow> int \<Rightarrow> exn + int"
  now :: int

text \<open>
  The path \<open>f'/proc/{pid}...'\<close> of a record of the process, and reading the text file
  at that path. Formatting the pid is inside the \<open>try\<close> that encloses the use of the
  path, so its \<open>ValueError\<close> is the exception of that block.
\<close>

definition proc_path :: "int \<Rightarrow> string \<Rightarrow> exn + string" where
  "proc_path p leaf =
     (case py_str p of
        None \<Rightarrow> Inl ValueError
      | Some ptext \<Rightarrow> Inr (''/proc/'' @ ptext @ leaf))"

definition read_proc :: "'f procfs \<Rightarrow> int \<Rightarrow> string \<Rightarrow> exn + string" where
  "read_proc fs p leaf =
     (case proc_path p leaf of
        Inl e \<Rightarrow> Inl e
      | Inr path \<Rightarrow> read_text fs path)"

text \<open>
  \<open>re.match(r'^(\d+) \((.+?)\) (\S) (\d+)', stat)\<close>. The first group takes every
  leading digit. The second group is lazy: it takes one character that is not a line feed,
  and one more each time the rest of the pattern does not follow. The result is the four
  groups.
\<close>

definition stat_tail :: "string \<Rightarrow> (char \<times> string) option" where
  \<comment> \<open>\<open>\) (\S) (\d+)\<close> at the start of the text\<close>
  "stat_tail s =
     (case s of
        p # sp1 # st # sp2 # ds \<Rightarrow>
          if p = CHR '')'' \<and> sp1 = CHR '' '' \<and> \<not> is_space st \<and> sp2 = CHR '' ''
             \<and> takeWhile is_digit ds \<noteq> []
          then Some (st, takeWhile is_digit ds)
          else None
      | _ \<Rightarrow> None)"

fun lazy_name :: "string \<Rightarrow> string \<Rightarrow> (string \<times> char \<times> string) option" where
  "lazy_name taken [] = None"
| "lazy_name taken (c # cs) =
     (if c = CHR 0x0A then None
      else (case stat_tail cs of
              Some (st, pp) \<Rightarrow> Some (taken @ [c], st, pp)
            | None \<Rightarrow> lazy_name (taken @ [c]) cs))"

definition match_stat :: "string \<Rightarrow> (string \<times> string \<times> char \<times> string) option" where
  "match_stat stat =
     (let digits = takeWhile is_digit stat; rest = dropWhile is_digit stat
      in if digits = [] \<or> \<not> startswith rest '' ('' then None
         else (case lazy_name [] (drop 2 rest) of
                 None \<Rightarrow> None
               | Some (nm, st, pp) \<Rightarrow> Some (digits, nm, st, pp)))"

text \<open>
  The start-time block reads the same record again and takes what follows the last
  closing parenthesis: \<open>f.read().split(')')[-1].split()\<close>.
\<close>

definition stat_fields :: "string \<Rightarrow> string list" where
  "stat_fields stat = py_split (last (py_split_on CHR '')'' stat))"

definition start_time_block :: "'f procfs \<Rightarrow> int \<Rightarrow> exn + int" where
  "start_time_block fs p =
     (case read_text fs ''/proc/uptime'' of
        Inl e \<Rightarrow> Inl e
      | Inr uptime \<Rightarrow>
     (case py_split uptime of
        [] \<Rightarrow> Inl IndexError
      | first # others \<Rightarrow>
     (case parse_float fs first of
        None \<Rightarrow> Inl ValueError
      | Some uptime_seconds \<Rightarrow>
     (case read_proc fs p ''/stat'' of
        Inl e \<Rightarrow> Inl e
      | Inr stat \<Rightarrow>
          if length (stat_fields stat) \<le> 19 then Inl IndexError
          else (case py_int (stat_fields stat ! 19) of
                  None \<Rightarrow> Inl ValueError
                | Some starttime_ticks \<Rightarrow>
                    start_from_age fs uptime_seconds starttime_ticks)))))"

text \<open>
  The command line: the file's text with null bytes replaced by spaces, stripped, or the
  name in brackets when that is empty.
\<close>

definition cmdline_block :: "'f procfs \<Rightarrow> int \<Rightarrow> string \<Rightarrow> exn + string" where
  "cmdline_block fs p nm =
     (case read_proc fs p ''/cmdline'' of
        Inl e \<Rightarrow> Inl e
      | Inr text \<Rightarrow>
          (let cmdline = py_strip (map (\<lambda>c. if c = CHR 0x00 then CHR '' '' else c) text)
           in Inr (if cmdline = [] then ''['' @ nm @ '']'' else cmdline)))"

text \<open>
  The resident memory: the second column of the first line of the status file that starts
  with \<open>VmRSS:\<close>; 0 when no line does.
\<close>

fun vmrss_loop :: "string list \<Rightarrow> exn + int" where
  "vmrss_loop [] = Inr 0"
| "vmrss_loop (line # lines) =
     (if startswith line ''VmRSS:'' then
        (case py_split line of
           a # b # others \<Rightarrow>
             (case py_int b of None \<Rightarrow> Inl ValueError | Some v \<Rightarrow> Inr v)
         | _ \<Rightarrow> Inl IndexError)
      else vmrss_loop lines)"

definition rss_block :: "'f procfs \<Rightarrow> int \<Rightarrow> exn + int" where
  "rss_block fs p =
     (case read_proc fs p ''/status'' of
        Inl e \<Rightarrow> Inl e
      | Inr text \<Rightarrow> vmrss_loop (file_lines text))"

text \<open>
  The environment: the items between null bytes that contain an equals sign, split at the
  first one; \<open>vars\<close> is the dictionary \<open>env_vars\<close>.
\<close>

fun environ_loop :: "string list \<Rightarrow> (string, string) mapping \<Rightarrow> exn + (string, string) mapping" where
  "environ_loop [] vars = Inr vars"
| "environ_loop (item # items) vars =
     (if CHR ''='' \<in> set item then
        (case py_split_on1 CHR ''='' item of
           [key, val] \<Rightarrow> environ_loop items (Mapping.update key val vars)
         | _ \<Rightarrow> Inl ValueError)
      else environ_loop items vars)"

definition environ_block :: "'f procfs \<Rightarrow> int \<Rightarrow> exn + (string, string) mapping" where
  "environ_block fs p =
     (case read_proc fs p ''/environ'' of
        Inl e \<Rightarrow> Inl e
      | Inr env_data \<Rightarrow> environ_loop (py_split_on CHR 0x00 env_data) Mapping.empty)"

text \<open>The owner's name and the working directory.\<close>

definition owner_block :: "'f procfs \<Rightarrow> int \<Rightarrow> exn + string" where
  "owner_block fs p =
     (case proc_path p [] of
        Inl e \<Rightarrow> Inl e
      | Inr path \<Rightarrow> owner_name fs path)"

definition cwd_block :: "'f procfs \<Rightarrow> int \<Rightarrow> exn + string option" where
  "cwd_block fs p =
     (case proc_path p ''/cwd'' of
        Inl e \<Rightarrow> Inl e
      | Inr path \<Rightarrow> map_sum id Some (readlink fs path))"

text \<open>
  The body of the outer \<open>try\<close> of \<open>get_process_info_linux\<close>, and the function: the
  handler of the outer \<open>try\<close> returns \<open>None\<close>. A result \<open>Inl\<close> of the function would
  be an exception that reaches the caller.
\<close>

definition get_process_info_linux_body :: "'f procfs \<Rightarrow> int \<Rightarrow> exn + ProcessInfo option" where
  "get_process_info_linux_body fs p =
     (case read_proc fs p ''/stat'' of
        Inl e \<Rightarrow> Inl e
      | Inr stat \<Rightarrow>
     (case match_stat stat of
        None \<Rightarrow> Inr None
      | Some (pid_parsed, nm, st, ppid_text) \<Rightarrow>
     (case py_int ppid_text of
        None \<Rightarrow> Inl ValueError
      | Some pp \<Rightarrow>
          (let cmdline = try_except (cmdline_block fs p nm) (''['' @ nm @ '']'');
               usr = try_except (owner_block fs p) ''unknown'';
               started = try_except (start_time_block fs p) (now fs);
               rss = try_except (rss_block fs p) 0;
               wd = try_except (cwd_block fs p) None;
               env = try_except (environ_block fs p) Mapping.empty
           in Inr (Some (new_ProcessInfo p nm pp usr cmdline started wd rss env))))))"

definition get_process_info_linux :: "'f procfs \<Rightarrow> int \<Rightarrow> exn + ProcessInfo option" where
  "get_process_info_linux fs p =
     (case get_process_info_linux_body fs p of
        Inl e \<Rightarrow> Inr None
      | Inr result \<Rightarrow> Inr result)"

subsection \<open>The provider that runs \<open>ps\<close>\<close>

text \<open>
  \<open>timedelta(seconds=s)\<close> raises \<open>OverflowError\<close> when it spans more than
  999999999 days, and so does the subtraction when the result is not a date of the years
  1 to 9999; \<open>None\<close> is that exception.
\<close>

definition datetime_max :: int where
  "datetime_max = 3652059 * 86400 * 1000000 - 1"

definition datetime_minus_seconds :: "int \<Rightarrow> int \<Rightarrow> int option" where
  "datetime_minus_seconds t s =
     (if \<bar>s div 86400\<bar> > 999999999 then None
      else if t - s * 1000000 < 0 \<or> t - s * 1000000 > datetime_max then None
      else Some (t - s * 1000000))"

text \<open>
  The body of the \<open>try\<close> of \<open>parse_elapsed_time_macos\<close> up to the sum
  \<open>total_seconds\<close>; \<open>None\<close> is the \<open>ValueError\<close> of \<open>int\<close>.
\<close>

definition elapsed_seconds :: "string \<Rightarrow> int option" where
  "elapsed_seconds etime =
     (let parts = py_split_on CHR ''-'' etime
      in case (if length parts = 2
               then map_option (\<lambda>d. (d, parts ! 1)) (py_int (parts ! 0))
               else Some (0, parts ! 0)) of
           None \<Rightarrow> None
         | Some (days, time_part) \<Rightarrow>
             (let time_components = py_split_on CHR '':'' time_part
              in case (if length time_components = 3 then
                         (case py_int (time_components ! 0) of
                            None \<Rightarrow> None
                          | Some h \<Rightarrow>
                         (case py_int (time_components ! 1) of
                            None \<Rightarrow> None
                          | Some m \<Rightarrow>
                         (case py_int (time_components ! 2) of
                            None \<Rightarrow> None
                          | Some s \<Rightarrow> Some (h, m, s))))
                       else if length time_components = 2 then
                         (case py_int (time_components ! 0) of
                            None \<Rightarrow> None
                          | Some m \<Rightarrow>
                         (case py_int (time_components ! 1) of
                            None \<Rightarrow> None
                          | Some s \<Rightarrow> Some (0, m, s)))
                       else
                         (case py_int (time_components ! 0) of
                            None \<Rightarrow> None
                          | Some s \<Rightarrow> Some (0, 0, s))) of
                   None \<Rightarrow> None
                 | Some (hours, minutes, seconds) \<Rightarrow>
                     Some (days * 86400 + hours * 3600 + minutes * 60 + seconds)))"

definition parse_elapsed_time_macos :: "int \<Rightarrow> string \<Rightarrow> int" where
  \<comment> \<open>the first argument is the value of \<open>datetime.now()\<close>\<close>
  "parse_elapsed_time_macos t etime =
     (case elapsed_seconds etime of
        None \<Rightarrow> t
      | Some total_seconds \<Rightarrow>
          (case datetime_minus_seconds t total_seconds of
             None \<Rightarrow> t
           | Some start \<Rightarrow> start))"

text \<open>The two loops over command output in \<open>get_process_info_macos\<close>.\<close>

fun lsof_cwd_loop :: "string list \<Rightarrow> string option" where
  "lsof_cwd_loop [] = None"
| "lsof_cwd_loop (line # lines) =
     (if startswith line ''n'' then Some (tl line) else lsof_cwd_loop lines)"

fun ps_env_loop :: "string list \<Rightarrow> (string, string) mapping \<Rightarrow> (string, string) mapping" where
  "ps_env_loop [] vars = vars"
| "ps_env_loop (line # lines) vars =
     ps_env_loop lines
       (if CHR ''='' \<in> set line then
          (let parts = py_split_on1 CHR ''='' line
           in if length parts = 2
              then Mapping.update (py_strip (parts ! 0)) (py_strip (parts ! 1)) vars
              else vars)
        else vars)"

text \<open>
  The body of the \<open>try\<close> of \<open>get_process_info_macos\<close>, and the function: the handler
  catches \<open>Exception\<close> and returns \<open>None\<close>.
\<close>

definition get_process_info_macos_body :: "platform \<Rightarrow> int \<Rightarrow> int \<Rightarrow> exn + ProcessInfo option" where
  "get_process_info_macos_body env t p =
     (case py_str p of
        None \<Rightarrow> Inl ValueError
      | Some ptext \<Rightarrow>
     (case run_command (subprocess_run env)
             [''ps'', ''-p'', ptext, ''-o'', ''pid=,ppid=,user=,comm=,etime=,rss=''] False of
        Inl e \<Rightarrow> Inl e
      | Inr (rc, stdout, stderr) \<Rightarrow>
          if rc \<noteq> 0 \<or> py_strip stdout = [] then Inr None
          else
            (let parts = py_split_max 5 (py_strip stdout)
             in if length parts < 6 then Inr None
                else
     (case py_int (parts ! 0) of
        None \<Rightarrow> Inl ValueError
      | Some pid_parsed \<Rightarrow>
     (case py_int (parts ! 1) of
        None \<Rightarrow> Inl ValueError
      | Some pp \<Rightarrow>
     (case py_int (parts ! 5) of
        None \<Rightarrow> Inl ValueError
      | Some rss \<Rightarrow>
     (case run_command (subprocess_run env) [''ps'', ''-p'', ptext, ''-o'', ''command='']
             False of
        Inl e \<Rightarrow> Inl e
      | Inr (rc1, cmd_out, stderr1) \<Rightarrow>
     (case run_command (subprocess_run env)
             [''lsof'', ''-a'', ''-p'', ptext, ''-d'', ''cwd'', ''-Fn''] False of
        Inl e \<Rightarrow> Inl e
      | Inr (rc2, lsof_out, stderr2) \<Rightarrow>
     (case run_command (subprocess_run env) [''ps'', ''-p'', ptext, ''-E''] False of
        Inl e \<Rightarrow> Inl e
      | Inr (rc3, env_out, stderr3) \<Rightarrow>
          (let usr = parts ! 2;
               nm = basename (parts ! 3);
               etime = parts ! 4;
               command = (if rc1 = 0 then py_strip cmd_out else nm);
               started = parse_elapsed_time_macos t etime;
               wd = (if rc2 = 0 then lsof_cwd_loop (py_split_on CHR 0x0A lsof_out) else None);
               vars = (if rc3 = 0
                       then ps_env_loop (py_split_on CHR 0x0A env_out) Mapping.empty
                       else Mapping.empty)
           in Inr (Some (new_ProcessInfo pid_parsed nm pp usr command started wd rss
                           vars))))))))))))"

definition get_process_info_macos :: "platform \<Rightarrow> int \<Rightarrow> int \<Rightarrow> exn + ProcessInfo option" where
  "get_process_info_macos env t p =
     (case get_process_info_macos_body env t p of
        Inl e \<Rightarrow> Inr None
      | Inr result \<Rightarrow> Inr result)"

subsection \<open>The dispatch\<close>

definition get_process_info :: "platform \<Rightarrow> 'f procfs \<Rightarrow> int \<Rightarrow> exn + ProcessInfo option" where
  "get_process_info env fs p =
     (if IS_MACOS env then get_process_info_macos env (now fs) p
      else if IS_LINUX env then get_process_info_linux fs p
      else get_process_info_macos env (now fs) p)"

subsection \<open>When a lookup succeeds or fails\<close>

text \<open>
  Notions for stating what a failed lookup does: a computation raised; the stat record
  of the process can be read, matches the pattern, and its parent pid is within the digit
  limit of \<open>int\<close>; the columns of the first \<open>ps\<close> call, when it exits with status 0
  and prints at least six of them; these columns have numbers where
  \<open>get_process_info_macos\<close> converts them.
\<close>

definition raises :: "exn + 'a \<Rightarrow> bool" where
  "raises r = (case r of Inl e \<Rightarrow> True | Inr v \<Rightarrow> False)"

definition linux_record_parses :: "'f procfs \<Rightarrow> int \<Rightarrow> bool" where
  "linux_record_parses fs p =
     (case read_proc fs p ''/stat'' of
        Inl e \<Rightarrow> False
      | Inr stat \<Rightarrow>
          (case match_stat stat of
             None \<Rightarrow> False
           | Some (pid_parsed, nm, st, ppid_text) \<Rightarrow> int_length ppid_text \<le> max_str_digits))"

definition ps_columns :: "platform \<Rightarrow> int \<Rightarrow> string list option" where
  "ps_columns env p =
     (case py_str p of
        None \<Rightarrow> None
      | Some ptext \<Rightarrow>
     (case run_command (subprocess_run env)
             [''ps'', ''-p'', ptext, ''-o'', ''pid=,ppid=,user=,comm=,etime=,rss=''] False of
        Inl e \<Rightarrow> None
      | Inr (rc, stdout, stderr) \<Rightarrow>
          if rc \<noteq> 0 \<or> py_strip stdout = [] then None
          else if length (py_split_max 5 (py_strip stdout)) < 6 then None
          else Some (py_split_max 5 (py_strip stdout))))"

definition ps_record_parses :: "platform \<Rightarrow> int \<Rightarrow> bool" where
  "ps_record_parses env p =
     (case ps_columns env p of
        None \<Rightarrow> False
      | Some parts \<Rightarrow>
          py_int (parts ! 0) \<noteq> None \<and> py_int (parts ! 1) \<noteq> None \<and> py_int (parts ! 5) \<noteq> None)"

section \<open>Port resolution\<close>

text \<open>
  A snapshot provider stands for \<open>get_process_info\<close>: it reads the operating system and
  the clock, so two calls with the same pid need not return equal records. It is a
  function of the number of the query (how many snapshots were taken before it) and of the
  pid; \<open>None\<close> is Python's \<open>None\<close>. The functions that take snapshots have the provider
  as their parameter \<open>provider\<close> and carry the query count along.
\<close>

type_synonym snapshot_provider = "nat \<Rightarrow> int \<Rightarrow> ProcessInfo option"

subsection \<open>The primary strategy\<close>

text \<open>
  The inner loop of \<open>find_process_by_port\<close> over the lines of the second \<open>lsof\<close>
  call: the ninth column of each line that contains \<open>LISTEN\<close> is appended to the
  addresses unless it is there already.
\<close>

fun lsof_address_loop :: "string list \<Rightarrow> ProcessInfo \<Rightarrow> ProcessInfo" where
  "lsof_address_loop [] proc_info = proc_info"
| "lsof_address_loop (line # lines) proc_info =
     lsof_address_loop lines
       (if py_in ''LISTEN'' line then
          (let parts = py_split line
           in if length parts \<ge> 9 then
                (let addr = parts ! 8
                 in if addr \<notin> set (listening_addresses proc_info)
                    then set_listening_addresses (listening_addresses proc_info @ [addr])
                           proc_info
                    else proc_info)
              else proc_info)
        else proc_info)"

text \<open>
  The outer loop over the pids that the first \<open>lsof\<close> call printed. The body is a
  \<open>try\<close> whose handler is \<open>pass\<close>: when \<open>int\<close>, the formatting of the command
  line or \<open>run_command\<close> raises, the loop goes on with the next pid and nothing is
  appended.
\<close>

fun lsof_pid_loop ::
  "platform \<Rightarrow> snapshot_provider \<Rightarrow> int \<Rightarrow> string list \<Rightarrow> nat \<times> ProcessInfo list
     \<Rightarrow> nat \<times> ProcessInfo list" where
  "lsof_pid_loop env provider port [] state = state"
| "lsof_pid_loop env provider port (pid_str # rest) (t, processes) =
     lsof_pid_loop env provider port rest
       (if pid_str \<noteq> [] then
          (case py_int pid_str of
             None \<Rightarrow> (t, processes)
           | Some p \<Rightarrow>
               (case provider t p of
                  None \<Rightarrow> (Suc t, processes)
                | Some proc_info \<Rightarrow>
                    (case py_str port of
                       None \<Rightarrow> (Suc t, processes)
                     | Some port_text \<Rightarrow>
                    (case py_str p of
                       None \<Rightarrow> (Suc t, processes)
                     | Some ptext \<Rightarrow>
                    (case run_command (subprocess_run env)
                            [''lsof'', ''-i'', '':'' @ port_text, ''-sTCP:LISTEN'', ''-a'',
                             ''-p'', ptext] False of
                       Inl e \<Rightarrow> (Suc t, processes)
                     | Inr (rc2, addr_out, stderr) \<Rightarrow>
                         (let proc_info1 =
                                (if rc2 = 0
                                 then lsof_address_loop (py_split_on CHR 0x0A addr_out) proc_info
                                 else proc_info)
                          in (Suc t,
                              if proc_info1 \<notin> set processes then processes @ [proc_info1]
                              else processes)))))))
        else (t, processes))"

subsection \<open>The kernel-table fallback\<close>

text \<open>
  \<open>find_process_by_socket_inode_linux\<close> walks the directories of \<open>/proc\<close> and takes a
  snapshot of the first process that holds the socket. The walk is given as a function
  from the inode to that pid, if any; the function catches every exception. The result
  comes with the new query count.
\<close>

definition find_process_by_socket_inode_linux ::
  "snapshot_provider \<Rightarrow> (string \<Rightarrow> int option) \<Rightarrow> nat \<Rightarrow> string \<Rightarrow> ProcessInfo option \<times> nat" where
  "find_process_by_socket_inode_linux provider holder t inode =
     (case holder inode of
        None \<Rightarrow> (None, t)
      | Some p \<Rightarrow> (provider t p, Suc t))"

text \<open>
  \<open>[str(int(addr_ip[i:i+2], 16)) for i in range(6, -1, -2)]\<close> joined with dots;
  \<open>None\<close> is the \<open>ValueError\<close> of \<open>int\<close> or \<open>str\<close>.
\<close>

definition hex_pair_text :: "string \<Rightarrow> string option" where
  \<comment> \<open>\<open>str(int(pair, 16))\<close>\<close>
  "hex_pair_text pair =
     (case py_int_base 16 pair of
        None \<Rightarrow> None
      | Some b \<Rightarrow> py_str b)"

definition ipv4_of_hex :: "string \<Rightarrow> string option" where
  "ipv4_of_hex addr_ip =
     (case hex_pair_text (take 2 (drop 6 addr_ip)) of
        None \<Rightarrow> None
      | Some b6 \<Rightarrow>
     (case hex_pair_text (take 2 (drop 4 addr_ip)) of
        None \<Rightarrow> None
      | Some b4 \<Rightarrow>
     (case hex_pair_text (take 2 (drop 2 addr_ip)) of
        None \<Rightarrow> None
      | Some b2 \<Rightarrow>
     (case hex_pair_text (take 2 addr_ip) of
        None \<Rightarrow> None
      | Some b0 \<Rightarrow> Some (py_join ''.'' [b6, b4, b2, b0])))))"

text \<open>
  One pass of the loop over the lines of a socket table in
  \<open>find_process_by_port_linux_proc\<close>. The result says whether an exception left the
  body; the \<open>try\<close> encloses the whole loop over the file, so the rest of the file is
  skipped then.
\<close>

definition proc_net_line ::
  "snapshot_provider \<Rightarrow> (string \<Rightarrow> int option) \<Rightarrow> int \<Rightarrow> string \<Rightarrow> nat \<times> ProcessInfo list
     \<Rightarrow> (nat \<times> ProcessInfo list) \<times> bool" where
  "proc_net_line provider holder port line state =
     (case state of (t, processes) \<Rightarrow>
      (let parts = py_split line
       in if length parts < 10 then ((t, processes), False)
          else
            (let local_addr = parts ! 1; state_code = parts ! 3; inode = parts ! 9
             in if state_code \<noteq> ''0A'' then ((t, processes), False)
                else if CHR '':'' \<in> set local_addr then
                  (let addr_port = py_split_on CHR '':'' local_addr ! 1
                   in if py_upper addr_port = py_upper (format_04X port) then
                        (case find_process_by_socket_inode_linux provider holder t
                                inode of
                           (None, t1) \<Rightarrow> ((t1, processes), False)
                         | (Some proc_info, t1) \<Rightarrow>
                             (let addr_ip = py_split_on CHR '':'' local_addr ! 0
                              in case (if length addr_ip = 8 then ipv4_of_hex addr_ip
                                       else Some addr_ip) of
                                   None \<Rightarrow> ((t1, processes), True)
                                 | Some ip_str \<Rightarrow>
                                     (case py_str port of
                                        None \<Rightarrow> ((t1, processes), True)
                                      | Some port_text \<Rightarrow>
                                     (let proc_info1 =
                                            set_listening_addresses
                                              (listening_addresses proc_info
                                                 @ [ip_str @ '':'' @ port_text])
                                              proc_info
                                      in ((t1,
                                           if proc_info1 \<notin> set processes
                                           then processes @ [proc_info1]
                                           else processes), False)))))
                      else ((t, processes), False))
                else ((t, processes), False))))"

fun proc_net_loop ::
  "snapshot_provider \<Rightarrow> (string \<Rightarrow> int option) \<Rightarrow> int \<Rightarrow> string list \<Rightarrow> nat \<times> ProcessInfo list
     \<Rightarrow> nat \<times> ProcessInfo list" where
  "proc_net_loop provider holder port [] state = state"
| "proc_net_loop provider holder port (line # lines) state =
     (case proc_net_line provider holder port line state of
        (state1, raised) \<Rightarrow>
          if raised then state1
          else proc_net_loop provider holder port lines state1)"

text \<open>
  For stating what the loop does with a line in the middle of a table: the state in which
  the loop arrives behind the lines \<open>lines\<close>, when no pass over them raised.
\<close>

fun proc_net_reach ::
  "snapshot_provider \<Rightarrow> (string \<Rightarrow> int option) \<Rightarrow> int \<Rightarrow> string list \<Rightarrow> nat \<times> ProcessInfo list
     \<Rightarrow> (nat \<times> ProcessInfo list) option" where
  "proc_net_reach provider holder port [] state = Some state"
| "proc_net_reach provider holder port (line # lines) state =
     (case proc_net_line provider holder port line state of
        (state1, raised) \<Rightarrow>
          if raised then None
          else proc_net_reach provider holder port lines state1)"

fun proc_net_files ::
  "snapshot_provider \<Rightarrow> (string \<Rightarrow> int option) \<Rightarrow> files \<Rightarrow> int \<Rightarrow> string list
     \<Rightarrow> nat \<times> ProcessInfo list \<Rightarrow> nat \<times> ProcessInfo list" where
  "proc_net_files provider holder read_file port [] state = state"
| "proc_net_files provider holder read_file port (net_file # rest) state =
     proc_net_files provider holder read_file port rest
       (case read_file net_file of
          None \<Rightarrow> state
        | Some content \<Rightarrow>
            proc_net_loop provider holder port (file_lines content) state)"

definition find_process_by_port_linux_proc ::
  "snapshot_provider \<Rightarrow> (string \<Rightarrow> int option) \<Rightarrow> files \<Rightarrow> nat \<Rightarrow> int
     \<Rightarrow> nat \<times> ProcessInfo list" where
  "find_process_by_port_linux_proc provider holder read_file t port =
     proc_net_files provider holder read_file port
       [''/proc/net/tcp'', ''/proc/net/tcp6''] (t, [])"

subsection \<open>The resolver\<close>

text \<open>
  The first \<open>run_command\<close> call of \<open>find_process_by_port\<close> and the formatting
  of its command line are outside every \<open>try\<close>: an exception there leaves the
  function. The result is the list \<open>processes\<close>.
\<close>

definition find_process_by_port ::
  "platform \<Rightarrow> snapshot_provider \<Rightarrow> (string \<Rightarrow> int option) \<Rightarrow> files \<Rightarrow> nat \<Rightarrow> int
     \<Rightarrow> exn + ProcessInfo list" where
  "find_process_by_port env provider holder read_file t port =
     (case py_str port of
        None \<Rightarrow> Inl ValueError
      | Some port_text \<Rightarrow>
     (case run_command (subprocess_run env)
             [''lsof'', ''-i'', '':'' @ port_text, ''-sTCP:LISTEN'', ''-t''] False of
        Inl e \<Rightarrow> Inl e
      | Inr (rc, stdout, stderr) \<Rightarrow>
          (let (t1, processes) =
                 (if rc = 0
                  then lsof_pid_loop env provider port
                         (py_split_on CHR 0x0A (py_strip stdout)) (t, [])
                  else (t, []))
           in if processes = [] \<and> IS_LINUX env
              then Inr (processes
                        @ snd (find_process_by_port_linux_proc provider holder
                                 read_file t1 port))
              else Inr processes)))"

subsection \<open>The socket tables in \<open>detect_listening_ports_linux_proc\<close>\<close>

text \<open>
  The second half of \<open>detect_listening_ports_linux_proc\<close>, the loops over the two
  socket tables, given the set \<open>socket_inodes\<close> that the first half collected. Here the
  port is read from the table (\<open>int(port_hex, 16)\<close>), and splitting the address field
  into exactly two parts raises when it has more than one colon.
\<close>

definition listening_line :: "string set \<Rightarrow> string \<Rightarrow> ProcessInfo \<Rightarrow> ProcessInfo \<times> bool" where
  "listening_line socket_inodes line proc =
     (let parts = py_split line
      in if length parts < 10 then (proc, False)
         else
           (let local_addr = parts ! 1; state_code = parts ! 3; inode = parts ! 9
            in if state_code = ''0A'' \<and> inode \<in> socket_inodes then
                 (if CHR '':'' \<in> set local_addr then
                    (case py_split_on CHR '':'' local_addr of
                       [addr_hex, port_hex] \<Rightarrow>
                         (case py_int_base 16 port_hex of
                            None \<Rightarrow> (proc, True)
                          | Some port \<Rightarrow>
                              (case (if length addr_hex = 8 then ipv4_of_hex addr_hex
                                     else Some (''['' @ addr_hex @ '']'')) of
                                 None \<Rightarrow> (proc, True)
                               | Some ip_str \<Rightarrow>
                                   (case py_str port of
                                      None \<Rightarrow> (proc, True)
                                    | Some port_text \<Rightarrow>
                                        (set_listening_addresses
                                           (listening_addresses proc
                                              @ [ip_str @ '':'' @ port_text])
                                           proc, False))))
                     | _ \<Rightarrow> (proc, True))
                  else (proc, False))
               else (proc, False)))"

fun listening_loop :: "string set \<Rightarrow> string list \<Rightarrow> ProcessInfo \<Rightarrow> ProcessInfo" where
  "listening_loop socket_inodes [] proc = proc"
| "listening_loop socket_inodes (line # lines) proc =
     (case listening_line socket_inodes line proc of
        (proc1, raised) \<Rightarrow>
          if raised then proc1 else listening_loop socket_inodes lines proc1)"

fun listening_files :: "string set \<Rightarrow> files \<Rightarrow> string list \<Rightarrow> ProcessInfo \<Rightarrow> ProcessInfo" where
  "listening_files socket_inodes read_file [] proc = proc"
| "listening_files socket_inodes read_file (net_file # rest) proc =
     listening_files socket_inodes read_file rest
       (case read_file net_file of
          None \<Rightarrow> proc
        | Some content \<Rightarrow> listening_loop socket_inodes (file_lines content) proc)"

subsection \<open>The byte order of an IPv4 address field\<close>

text \<open>
  What the specification asks of the conversion, in its own words: the eight hexadecimal
  digits are four byte pairs, read in reverse order and written in dotted decimal.
\<close>

definition is_hex_digit :: "char \<Rightarrow> bool" where
  "is_hex_digit c = (digit_val 16 c \<noteq> None)"

definition hex_byte :: "char \<Rightarrow> char \<Rightarrow> int" where
  "hex_byte h l =
     16 * (case digit_val 16 h of Some v \<Rightarrow> v | None \<Rightarrow> 0)
     + (case digit_val 16 l of Some v \<Rightarrow> v | None \<Rightarrow> 0)"

definition reversed_dotted_decimal :: "string \<Rightarrow> string" where
  "reversed_dotted_decimal a =
     py_join ''.''
       [decimal (hex_byte (a ! 6) (a ! 7)), decimal (hex_byte (a ! 4) (a ! 5)),
        decimal (hex_byte (a ! 2) (a ! 3)), decimal (hex_byte (a ! 0) (a ! 1))]"

section \<open>Ancestry resolution\<close>

text \<open>
  The \<open>while\<close> loop of \<open>build_ancestry\<close>: \<open>t\<close> counts the snapshot queries made so
  far, \<open>current_pid\<close> and \<open>chain\<close> (the local list \<open>ancestry\<close>) are the loop's
  variables.
\<close>

function build_ancestry_loop ::
  "snapshot_provider \<Rightarrow> nat \<Rightarrow> int \<Rightarrow> ProcessInfo list \<Rightarrow> ProcessInfo list" where
  "build_ancestry_loop provider t current_pid chain =
     (if current_pid > 0 then
        (case provider t current_pid of
           None \<Rightarrow> chain
         | Some parent \<Rightarrow>
             (if ppid parent = 1 \<or> length (parent # chain) > 20
              then parent # chain
              else build_ancestry_loop provider (Suc t) (ppid parent)
                     (parent # chain)))
      else chain)"
  by pat_completeness auto
termination
  by (relation "measure (\<lambda>(g, t, c, a). 21 - length a)") auto

declare build_ancestry_loop.simps [simp del]

definition build_ancestry :: "snapshot_provider \<Rightarrow> nat \<Rightarrow> ProcessInfo \<Rightarrow> ProcessInfo list" where
  "build_ancestry provider t proc =
     build_ancestry_loop provider t (ppid proc) []"

text \<open>
  A list is parent-linked when the pid of each element is the parent pid of the element
  after it.
\<close>

fun parent_linked :: "ProcessInfo list \<Rightarrow> bool" where
  "parent_linked [] = True"
| "parent_linked [x] = True"
| "parent_linked (x # y # ys) = (pid x = ppid y \<and> parent_linked (y # ys))"

section \<open>Source classification\<close>

subsection \<open>The unit-name pattern\<close>

text \<open>
  \<open>re.search(r'([a-zA-Z0-9._-]+\.(service|socket|timer))', line)\<close>: the leftmost
  position at which the pattern matches; there the character class takes the longest run
  it can and gives characters back one at a time until a dot and one of the three words
  follow. The result is group 1, the whole match.
\<close>

definition is_unit_char :: "char \<Rightarrow> bool" where
  "is_unit_char c =
     (let n = (of_char c :: int)
      in (97 \<le> n \<and> n \<le> 122) \<or> (65 \<le> n \<and> n \<le> 90) \<or> (48 \<le> n \<and> n \<le> 57)
         \<or> c = CHR ''.'' \<or> c = CHR ''_'' \<or> c = CHR ''-'')"

definition unit_suffix :: "string \<Rightarrow> string option" where
  "unit_suffix r =
     (if startswith r ''.service'' then Some ''.service''
      else if startswith r ''.socket'' then Some ''.socket''
      else if startswith r ''.timer'' then Some ''.timer''
      else None)"

fun unit_backtrack :: "nat \<Rightarrow> string \<Rightarrow> string option" where
  "unit_backtrack 0 s = None"
| "unit_backtrack (Suc k) s =
     (case unit_suffix (drop (Suc k) s) of
        Some w \<Rightarrow> Some (take (Suc k) s @ w)
      | None \<Rightarrow> unit_backtrack k s)"

definition match_unit_at :: "string \<Rightarrow> string option" where
  "match_unit_at s = unit_backtrack (length (takeWhile is_unit_char s)) s"

fun search_unit :: "string \<Rightarrow> string option" where
  "search_unit [] = None"
| "search_unit (c # cs) =
     (case match_unit_at (c # cs) of
        Some m \<Rightarrow> Some m
      | None \<Rightarrow> search_unit cs)"

subsection \<open>The enrichment loops\<close>

text \<open>
  The loop over the lines of \<open>systemctl status\<close>: the first line that contains
  \<open>.service\<close> or \<open>.socket\<close> and matches the pattern gives the detail, and the loop
  ends there.
\<close>

fun systemd_unit_loop :: "string list \<Rightarrow> ProcessInfo \<Rightarrow> ProcessInfo" where
  "systemd_unit_loop [] proc = proc"
| "systemd_unit_loop (line # lines) proc =
     (if py_in ''.service'' line \<or> py_in ''.socket'' line then
        (case search_unit line of
           Some m \<Rightarrow> set_source_detail (Some m) proc
         | None \<Rightarrow> systemd_unit_loop lines proc)
      else systemd_unit_loop lines proc)"

text \<open>
  The loop over the lines of \<open>docker ps --no-trunc\<close>: every line that contains the
  target's pid as text and has at least two columns overwrites the three fields; the loop
  has no \<open>break\<close>. The pid is converted to text at every line, and the
  \<open>ValueError\<close> of \<open>str\<close> leaves the loop.
\<close>

fun docker_ps_loop :: "string list \<Rightarrow> ProcessInfo \<Rightarrow> exn + ProcessInfo" where
  "docker_ps_loop [] proc = Inr proc"
| "docker_ps_loop (line # lines) proc =
     (case py_str (pid proc) of
        None \<Rightarrow> Inl ValueError
      | Some pid_text \<Rightarrow>
          docker_ps_loop lines
            (if py_in pid_text line then
               (let parts = py_split line
                in if length parts > 1 then
                     (let proc1 = set_container_name (Some (last parts)) proc;
                          proc2 = set_container_image (Some (parts ! 1)) proc1
                      in set_source_detail (container_name proc2) proc2)
                   else proc)
             else proc))"

subsection \<open>The classifier\<close>

definition shell_names :: "string list" where
  "shell_names = [''bash'', ''zsh'', ''fish'', ''sh'', ''dash'', ''tcsh'', ''csh'']"

definition falsy :: "string option \<Rightarrow> bool" where
  \<comment> \<open>\<open>not v\<close> for an optional string: \<open>None\<close> and the empty string\<close>
  "falsy v = (v = None \<or> v = Some [])"

text \<open>
  The \<open>for\<close> loop of \<open>detect_source\<close> over \<open>reversed(proc.ancestry)\<close>, given the
  ancestors still to visit, nearest first; the empty list is the code after the loop. An
  exception that \<open>run_command\<close> lets pass, or that \<open>str\<close> raises, leaves
  \<open>detect_source\<close>.
\<close>

fun detect_source_loop :: "platform \<Rightarrow> ProcessInfo list \<Rightarrow> ProcessInfo \<Rightarrow> exn + ProcessInfo" where
  "detect_source_loop env [] proc =
     Inr (if falsy (source proc) then set_source (Some ''unknown'') proc else proc)"
| "detect_source_loop env (ancestor # rest) proc =
     (if name ancestor = ''systemd'' \<and> pid ancestor \<noteq> 1 then
        (let proc1 = set_source (Some ''systemd'') proc
         in if IS_LINUX env then
              (case py_str (pid proc1) of
                 None \<Rightarrow> Inl ValueError
               | Some pid_text \<Rightarrow>
              (case run_command (subprocess_run env)
                      [''systemctl'', ''status'', pid_text] False of
                 Inl e \<Rightarrow> Inl e
               | Inr (rc, stdout, stderr) \<Rightarrow>
                   if rc = 0 then Inr (systemd_unit_loop (py_splitlines stdout) proc1)
                   else Inr proc1))
            else Inr proc1)
      else if name ancestor = ''launchd'' then Inr (set_source (Some ''launchd'') proc)
      else if py_in ''docker'' (name ancestor) \<or> py_in ''containerd'' (name ancestor) then
        (let proc1 = set_source (Some ''docker'') proc
         in case run_command (subprocess_run env) [''docker'', ''ps'', ''--no-trunc''] False of
              Inl e \<Rightarrow> Inl e
            | Inr (rc, stdout, stderr) \<Rightarrow>
                if rc = 0 then docker_ps_loop (py_splitlines stdout) proc1
                else Inr proc1)
      else if py_in ''PM2'' (cmd ancestor) \<or> py_in ''pm2'' (name ancestor) then
        Inr (set_source (Some ''pm2'') proc)
      else if py_in ''supervisor'' (name ancestor) then
        Inr (set_source (Some ''supervisor'') proc)
      else if name ancestor = ''cron'' \<or> py_in ''CRON'' (cmd ancestor) then
        Inr (set_source (Some ''cron'') proc)
      else if name ancestor \<in> set shell_names then
        Inr (set_source_detail (Some (name ancestor))
               (set_source (Some ''interactive shell'') proc))
      else detect_source_loop env rest proc)"

definition detect_source :: "platform \<Rightarrow> ProcessInfo \<Rightarrow> exn + ProcessInfo" where
  "detect_source env proc = detect_source_loop env (rev (ancestry proc)) proc"

text \<open>
  Two notions for stating properties: the three assignments that the docker loop makes
  for one line, and the ancestors that some row of the rule table matches.
\<close>

definition docker_fields :: "string \<Rightarrow> string \<Rightarrow> ProcessInfo \<Rightarrow> ProcessInfo" where
  "docker_fields n i proc =
     set_source_detail (Some n) (set_container_image (Some i) (set_container_name (Some n) proc))"

definition matches_rule :: "ProcessInfo \<Rightarrow> bool" where
  "matches_rule ancestor =
     ((name ancestor = ''systemd'' \<and> pid ancestor \<noteq> 1)
      \<or> name ancestor = ''launchd''
      \<or> py_in ''docker'' (name ancestor) \<or> py_in ''containerd'' (name ancestor)
      \<or> py_in ''PM2'' (cmd ancestor) \<or> py_in ''pm2'' (name ancestor)
      \<or> py_in ''supervisor'' (name ancestor)
      \<or> name ancestor = ''cron'' \<or> py_in ''CRON'' (cmd ancestor)
      \<or> name ancestor \<in> set shell_names)"

section \<open>Concrete scenarios\<close>

text \<open>
  A snapshot as the providers build it, for the concrete process tables below: only pid,
  name and parent pid vary.
\<close>

definition snapshot_of :: "int \<Rightarrow> string \<Rightarrow> int \<Rightarrow> ProcessInfo" where
  "snapshot_of p n pp = new_ProcessInfo p n pp ''root'' n 0 None 0 Mapping.empty"

text \<open>
  Thirty-one nested shells: process 100 is a child of init, and each process from 101 to
  130 is a child of the one before.
\<close>

definition deep_chain_provider :: snapshot_provider where
  "deep_chain_provider t p =
     (if 100 \<le> p \<and> p \<le> 130
      then Some (snapshot_of p ''sh'' (if p = 100 then 1 else p - 1))
      else None)"

text \<open>Process 7 is a child of 5, 5 is a child of init (pid 1), init has parent 0.\<close>

definition two_hop_provider :: snapshot_provider where
  "two_hop_provider t p =
     (if p = 7 then Some (snapshot_of 7 ''worker'' 5)
      else if p = 5 then Some (snapshot_of 5 ''sshd'' 1)
      else if p = 1 then Some (snapshot_of 1 ''init'' 0)
      else None)"

text \<open>Process 9 is a child of 5, 5 of 3, 3 of init.\<close>

definition three_hop_provider :: snapshot_provider where
  "three_hop_provider t p =
     (if p = 9 then Some (snapshot_of 9 ''vim'' 5)
      else if p = 5 then Some (snapshot_of 5 ''bash'' 3)
      else if p = 3 then Some (snapshot_of 3 ''sshd'' 1)
      else if p = 1 then Some (snapshot_of 1 ''init'' 0)
      else None)"

text \<open>
  A Linux machine on which no external command is installed, and the target of the
  classifier's priority scenario: its ancestry is init (pid 1), a systemd unit manager,
  the docker daemon and a shell, root first.
\<close>

definition bare_linux :: platform where
  "bare_linux =
     \<lparr>IS_MACOS = False, IS_LINUX = True, subprocess_run = (\<lambda>cmd check. Inl FileNotFoundError)\<rparr>"

definition docker_shell_target :: ProcessInfo where
  "docker_shell_target =
     set_ancestry
       [snapshot_of 1 ''systemd'' 0, snapshot_of 900 ''systemd'' 1,
        snapshot_of 1200 ''dockerd'' 900, snapshot_of 1300 ''bash'' 1200]
       (snapshot_of 1400 ''python3'' 1300)"

text \<open>A process whose ancestors, init and an ssh daemon, match no rule of the classifier.\<close>

definition unsupervised_target :: ProcessInfo where
  "unsupervised_target =
     set_ancestry [snapshot_of 1 ''systemd'' 0, snapshot_of 800 ''sshd'' 1]
       (snapshot_of 4242 ''worker'' 800)"

text \<open>
  A machine on which \<open>lsof -t\<close> prints pid 4242 on two lines for port 8080 and the
  second \<open>lsof\<close> call prints one listening socket; every other command fails. Each
  snapshot of process 4242 carries the start time computed at the moment of the query.
\<close>

definition lsof_twice :: platform where
  "lsof_twice =
     \<lparr>IS_MACOS = False, IS_LINUX = True,
      subprocess_run = (\<lambda>argv check.
        if argv = [''lsof'', ''-i'', '':8080'', ''-sTCP:LISTEN'', ''-t'']
        then Inr (0, ''4242'' @ [CHR 0x0A] @ ''4242'' @ [CHR 0x0A], [])
        else if argv = [''lsof'', ''-i'', '':8080'', ''-sTCP:LISTEN'', ''-a'', ''-p'', ''4242'']
        then Inr (0, ''COMMAND PID USER FD TYPE DEVICE SIZE/OFF NODE NAME'' @ [CHR 0x0A]
                     @ ''node 4242 alice 21u IPv4 12345 0t0 TCP *:8080 (LISTEN)''
                     @ [CHR 0x0A], [])
        else Inr (1, [], []))\<rparr>"

definition ticking_provider :: snapshot_provider where
  "ticking_provider t p =
     (if p = 4242
      then Some (new_ProcessInfo 4242 ''node'' 1 ''alice'' ''node server.js''
                   (1000 + int t) None 0 Mapping.empty)
      else None)"

definition no_holder :: "string \<Rightarrow> int option" where
  "no_holder inode = None"

definition no_files :: files where
  "no_files path = None"

text \<open>
  Socket tables of a Linux machine without \<open>lsof\<close>: the first has a header and one
  socket listening on 127.0.0.1, port 8080 (inode 34566), the second a header and one
  socket listening on the IPv6 wildcard address, port 8080 (inode 34567). Process 4242
  holds both sockets.
\<close>

definition tcp_line :: string where
  "tcp_line = ''   0: 0100007F:1F90 00000000:0000 0A 00000000:00000000 00:00000000 00000000  1000        0 34566 1 0000000000000000 100 0 0 10 0''"

definition tcp6_line :: string where
  "tcp6_line = ''   0: 00000000000000000000000000000000:1F90 00000000000000000000000000000000:0000 0A 00000000:00000000 00:00000000 00000000  1000        0 34567 1 0000000000000000 100 0 0 10 0''"

definition table_header :: string where
  "table_header = ''  sl  local_address rem_address   st tx_queue rx_queue tr tm->when retrnsmt   uid  timeout inode''"

definition tcp_only :: files where
  "tcp_only path =
     (if path = ''/proc/net/tcp''
      then Some (table_header @ [CHR 0x0A] @ tcp_line @ [CHR 0x0A])
      else None)"

definition tcp6_only :: files where
  "tcp6_only path =
     (if path = ''/proc/net/tcp6''
      then Some (table_header @ [CHR 0x0A] @ tcp6_line @ [CHR 0x0A])
      else None)"

definition socket_holder :: "string \<Rightarrow> int option" where
  "socket_holder inode = (if inode = ''34566'' \<or> inode = ''34567'' then Some 4242 else None)"

text \<open>
  The same machine with both tables, as when process 4242 listens on port 8080 with one
  IPv4 and one IPv6 socket; and a provider for which the clock stands still, so that every
  snapshot of process 4242 is the same record.
\<close>

definition dual_stack :: files where
  "dual_stack path =
     (case tcp_only path of
        Some content \<Rightarrow> Some content
      | None \<Rightarrow> tcp6_only path)"

definition steady_provider :: snapshot_provider where
  "steady_provider t p = ticking_provider 0 p"


text \<open>
  A \<open>/proc\<close> in which only the stat records of two processes can be read. Process 42
  has set its name to \<open>a) R 1 (b\<close>; its state is \<open>S\<close> and its parent is process 7.
  Process 43 is named \<open>(sd-pam)\<close> and is a child of process 1. The representation of
  floats is immaterial, as \<open>/proc/uptime\<close> cannot be read.
\<close>

definition tricky_stat :: string where
  "tricky_stat = ''42 (a) R 1 (b) S 7 42 42 0 -1 4194304 100 0 0 0 1 2 0 0 20 0 1 0 12345 1000000 200''"

definition plain_stat :: string where
  "plain_stat = ''43 ((sd-pam)) S 1 43 43 0 -1 4194304 100 0 0 0 1 2 0 0 20 0 1 0 12345 1000000 200''"

definition stat_only :: "int procfs" where
  "stat_only =
     \<lparr>read_text = (\<lambda>path.
        if path = ''/proc/42/stat'' then Inr tricky_stat
        else if path = ''/proc/43/stat'' then Inr plain_stat
        else Inl PermissionError),
      owner_name = (\<lambda>path. Inl PermissionError),
      readlink = (\<lambda>path. Inl PermissionError),
      parse_float = (\<lambda>text. None),
      start_from_age = (\<lambda>uptime ticks. Inl OverflowError),
      now = 63000000000000000\<rparr>"

text \<open>
  Three machines that run \<open>ps\<close>. On the first, process 501 is \<open>/usr/sbin/cupsd\<close>,
  started 1 hour 2 minutes 3 seconds ago; \<open>lsof\<close> and \<open>ps -E\<close> exit with status 1.
  On the second, the executable of process 501 has a space in its path. On the third,
  the output of \<open>ps -E\<close> cannot be decoded.
\<close>

definition mac_commands :: "string \<Rightarrow> exn + completed \<Rightarrow> subprocess" where
  "mac_commands ps_line env_result argv check =
     (if argv = [''ps'', ''-p'', ''501'', ''-o'', ''pid=,ppid=,user=,comm=,etime=,rss='']
      then Inr (0, ps_line @ [CHR 0x0A], [])
      else if argv = [''ps'', ''-p'', ''501'', ''-o'', ''command='']
      then Inr (0, ''/usr/sbin/cupsd -l'' @ [CHR 0x0A], [])
      else if argv = [''ps'', ''-p'', ''501'', ''-E''] then env_result
      else Inr (1, [], []))"

definition mac_plain :: platform where
  "mac_plain =
     \<lparr>IS_MACOS = True, IS_LINUX = False,
      subprocess_run =
        mac_commands ''  501     1 root             /usr/sbin/cupsd     01:02:03   2048''
          (Inr (1, [], []))\<rparr>"

definition mac_space :: platform where
  "mac_space =
     \<lparr>IS_MACOS = True, IS_LINUX = False,
      subprocess_run =
        mac_commands
          ''  501     1 alice            /Applications/Some App.app/Contents/MacOS/App 01:02:03   2048''
          (Inr (1, [], []))\<rparr>"

definition mac_undecodable :: platform where
  "mac_undecodable =
     \<lparr>IS_MACOS = True, IS_LINUX = False,
      subprocess_run =
        mac_commands ''  501     1 root             /usr/sbin/cupsd     01:02:03   2048''
          (Inl UnicodeDecodeError)\<rparr>"

section \<open>Properties of ancestry resolution\<close>

lemma build_ancestry_loop_length:
  "length chain \<le> 20 \<Longrightarrow> length (build_ancestry_loop g t c chain) \<le> 21"
proof (induction g t c chain rule: build_ancestry_loop.induct)
  case (1 g t c chain)
  note unfold = build_ancestry_loop.simps[of g t c chain]
  show ?case
  proof (cases "c > 0")
    case False
    then show ?thesis using "1.prems" by (simp add: unfold)
  next
    case True
    show ?thesis
    proof (cases "g t c")
      case None
      then show ?thesis using True "1.prems" by (simp add: unfold)
    next
      case (Some parent)
      show ?thesis
      proof (cases "ppid parent = 1 \<or> length (parent # chain) > 20")
        case True
        then show ?thesis using \<open>c > 0\<close> Some "1.prems" by (simp add: unfold)
      next
        case False
        then have "length (parent # chain) \<le> 20" by simp
        from "1.IH"[OF \<open>c > 0\<close> Some False this]
        show ?thesis using \<open>c > 0\<close> Some False by (simp add: unfold)
      qed
    qed
  qed
qed

text \<open>
  C2: the claim asks for at most 20 ancestors. The loop tests \<open>len(ancestry) > 20\<close>
  after the insertion, so it stops with 21: for process 130 at the end of a chain of
  nested shells the ancestry has 21 elements, the processes 109 to 129.
\<close>

theorem build_ancestry_deep_chain_length:
  "\<not> length (build_ancestry deep_chain_provider 0 (snapshot_of 130 ''sh'' 129)) \<le> 20 \<and>
   length (build_ancestry deep_chain_provider 0 (snapshot_of 130 ''sh'' 129)) = 21 \<and>
   map pid (build_ancestry deep_chain_provider 0 (snapshot_of 130 ''sh'' 129)) =
     [109, 110, 111, 112, 113, 114, 115, 116, 117, 118, 119, 120, 121, 122, 123, 124, 125,
      126, 127, 128, 129]"
  by code_simp

text \<open>
  C2, amended: for every snapshot provider, however its parent links are shaped, every
  query count and every target process, \<open>build_ancestry\<close> returns a list of at most 21
  elements.
\<close>

theorem build_ancestry_length_le_21:
  "length (build_ancestry provider t proc) \<le> 21"
  unfolding build_ancestry_def by (rule build_ancestry_loop_length) simp

text \<open>
  C3: the claim asks for init (pid 1) in the ancestry whenever the parent chain reaches
  it. The loop leaves as soon as the next pid to query is 1, before querying it: for the
  table 7 \<rightarrow> 5 \<rightarrow> 1, in which every parent is resolvable, the ancestry of 7 is the
  record of 5 alone.
\<close>

theorem build_ancestry_omits_init:
  "map_option pid (two_hop_provider 2 1) = Some 1 \<and>
   map pid (build_ancestry two_hop_provider 0 (snapshot_of 7 ''worker'' 5)) = [5]"
  by code_simp

subsection \<open>The chain follows the parent links\<close>

lemma parent_linked_nth:
  "parent_linked xs \<Longrightarrow> Suc i < length xs \<Longrightarrow> pid (xs ! i) = ppid (xs ! Suc i)"
proof (induction xs arbitrary: i rule: parent_linked.induct)
  case (3 x y ys)
  then show ?case by (cases i) auto
qed auto

lemma build_ancestry_loop_linked:
  "\<forall>t p r. g t p = Some r \<longrightarrow> pid r = p \<Longrightarrow> parent_linked chain
     \<Longrightarrow> (chain \<noteq> [] \<longrightarrow> c = ppid (hd chain))
     \<Longrightarrow> parent_linked (build_ancestry_loop g t c chain)"
proof (induction g t c chain rule: build_ancestry_loop.induct)
  case (1 g t c chain)
  note unfold = build_ancestry_loop.simps[of g t c chain]
  show ?case
  proof (cases "c > 0")
    case False
    then show ?thesis using "1.prems" by (simp add: unfold)
  next
    case True
    show ?thesis
    proof (cases "g t c")
      case None
      then show ?thesis using True "1.prems" by (simp add: unfold)
    next
      case (Some parent)
      from "1.prems"(1) Some have pp: "pid parent = c" by blast
      have lk: "parent_linked (parent # chain)"
        using pp "1.prems"(2,3) by (cases chain) auto
      show ?thesis
      proof (cases "ppid parent = 1 \<or> length (parent # chain) > 20")
        case True
        then show ?thesis using \<open>c > 0\<close> Some lk by (simp add: unfold)
      next
        case False
        from "1.IH"[OF \<open>c > 0\<close> Some False "1.prems"(1) lk]
        show ?thesis using \<open>c > 0\<close> Some False by (simp add: unfold)
      qed
    qed
  qed
qed

lemma build_ancestry_loop_suffix: "\<exists>pre. build_ancestry_loop g t c chain = pre @ chain"
proof (induction g t c chain rule: build_ancestry_loop.induct)
  case (1 g t c chain)
  note unfold = build_ancestry_loop.simps[of g t c chain]
  show ?case
  proof (cases "c > 0")
    case False
    then show ?thesis by (simp add: unfold)
  next
    case True
    show ?thesis
    proof (cases "g t c")
      case None
      then show ?thesis using True by (simp add: unfold)
    next
      case (Some parent)
      show ?thesis
      proof (cases "ppid parent = 1 \<or> length (parent # chain) > 20")
        case True
        then have "build_ancestry_loop g t c chain = [parent] @ chain"
          using \<open>c > 0\<close> Some by (simp add: unfold)
        then show ?thesis by blast
      next
        case False
        from "1.IH"[OF \<open>c > 0\<close> Some False]
        obtain pre where
          "build_ancestry_loop g (Suc t) (ppid parent) (parent # chain) = pre @ parent # chain"
          by blast
        then have "build_ancestry_loop g t c chain = (pre @ [parent]) @ chain"
          using \<open>c > 0\<close> Some False by (simp add: unfold)
        then show ?thesis by blast
      qed
    qed
  qed
qed

lemma build_ancestry_loop_last:
  assumes prov: "\<forall>t p r. g t p = Some r \<longrightarrow> pid r = p"
    and ne: "build_ancestry_loop g t c [] \<noteq> []"
  shows "pid (last (build_ancestry_loop g t c [])) = c"
proof -
  note unfold = build_ancestry_loop.simps[of g t c "[]"]
  show ?thesis
  proof (cases "c > 0")
    case False
    then show ?thesis using ne by (simp add: unfold)
  next
    case True
    show ?thesis
    proof (cases "g t c")
      case None
      then show ?thesis using True ne by (simp add: unfold)
    next
      case (Some parent)
      from prov Some have pp: "pid parent = c" by blast
      obtain pre where
        "build_ancestry_loop g (Suc t) (ppid parent) [parent] = pre @ [parent]"
        using build_ancestry_loop_suffix[of g "Suc t" "ppid parent" "[parent]"] by auto
      then show ?thesis using True Some pp by (simp add: unfold)
    qed
  qed
qed

text \<open>
  C10: if every record the snapshot provider returns for a queried pid carries that pid,
  then the last element of the ancestry is the record of the target's parent pid, and in
  every adjacent pair the pid of the earlier (root-ward) element is the parent pid of the
  later one.
\<close>

theorem build_ancestry_parent_linked:
  assumes "\<forall>t p r. provider t p = Some r \<longrightarrow> pid r = p"
  shows "(build_ancestry provider t proc \<noteq> [] \<longrightarrow>
            pid (last (build_ancestry provider t proc)) = ppid proc) \<and>
         (\<forall>i. Suc i < length (build_ancestry provider t proc) \<longrightarrow>
            pid (build_ancestry provider t proc ! i) =
            ppid (build_ancestry provider t proc ! Suc i))"
proof -
  have "parent_linked (build_ancestry provider t proc)"
    unfolding build_ancestry_def
    by (rule build_ancestry_loop_linked[OF assms]) simp_all
  then show ?thesis
    using build_ancestry_loop_last[OF assms, of t "ppid proc"]
    by (auto simp: build_ancestry_def dest: parent_linked_nth)
qed

theorem build_ancestry_parent_linked_witness:
  "map pid (build_ancestry three_hop_provider 0 (snapshot_of 9 ''vim'' 5)) = [3, 5] \<and>
   pid (last (build_ancestry three_hop_provider 0 (snapshot_of 9 ''vim'' 5))) =
     ppid (snapshot_of 9 ''vim'' 5) \<and>
   pid (build_ancestry three_hop_provider 0 (snapshot_of 9 ''vim'' 5) ! 0) =
     ppid (build_ancestry three_hop_provider 0 (snapshot_of 9 ''vim'' 5) ! Suc 0)"
proof -
  have h: "\<forall>t p r. three_hop_provider t p = Some r \<longrightarrow> pid r = p"
    by (auto simp: three_hop_provider_def snapshot_of_def new_ProcessInfo_def
          split: if_splits)
  have e: "map pid (build_ancestry three_hop_provider 0 (snapshot_of 9 ''vim'' 5)) = [3, 5]"
    by code_simp
  have n: "build_ancestry three_hop_provider 0 (snapshot_of 9 ''vim'' 5) \<noteq> []"
    and l: "Suc 0 < length (build_ancestry three_hop_provider 0 (snapshot_of 9 ''vim'' 5))"
    using e by auto
  from build_ancestry_parent_linked[OF h, of 0 "snapshot_of 9 ''vim'' 5"] e n l
  show ?thesis by blast
qed

section \<open>Properties of the snapshot providers\<close>

subsection \<open>The stat record\<close>

text \<open>
  C4: the claim asks for the text between the outermost parentheses as the name and for
  the field after the state that follows the last closing parenthesis as the parent pid,
  for every name. The pattern takes the shortest name after which a state and a number
  follow: for the process that has named itself \<open>a) R 1 (b\<close> (state \<open>S\<close>, parent 7)
  the provider returns the name \<open>a\<close> and the parent pid 1. The start-time block of the
  same function splits the record at the last closing parenthesis and finds the state
  \<open>S\<close> and the parent 7.
\<close>

theorem get_process_info_linux_inner_parenthesis:
  "match_stat tricky_stat = Some (''42'', ''a'', CHR ''R'', ''1'') \<and>
   map_sum id (map_option (\<lambda>info. (name info, ppid info)))
     (get_process_info_linux stat_only 42) = Inr (Some (''a'', 1)) \<and>
   take 2 (stat_fields tricky_stat) = [''S'', ''7'']"
  by code_simp

subsection \<open>Totality and failing lookups\<close>

lemma digit_not_int_space: "is_digit c \<Longrightarrow> \<not> is_int_space c"
  by (auto simp: is_digit_def is_int_space_def Let_def)

lemma digit_plain:
  assumes "is_digit c"
  shows "c \<noteq> CHR ''-''" "c \<noteq> CHR ''+''" "c \<noteq> CHR ''_''"
  using assms by (auto simp: is_digit_def Let_def)

lemma digit_val_digit: "is_digit c \<Longrightarrow> \<exists>v. digit_val 10 c = Some v"
  by (auto simp: is_digit_def digit_val_def Let_def)

lemma int_strip_plain: "\<forall>c \<in> set s. \<not> is_int_space c \<Longrightarrow> int_strip s = s"
proof -
  assume a: "\<forall>c \<in> set s. \<not> is_int_space c"
  have d: "dropWhile is_int_space xs = xs" if "\<forall>c \<in> set xs. \<not> is_int_space c" for xs
    using that by (cases xs) auto
  have "dropWhile is_int_space s = s" using a by (rule d)
  moreover have "dropWhile is_int_space (rev s) = rev s" using a by (intro d) simp
  ultimately show ?thesis by (simp add: int_strip_def)
qed

lemma parse_digits_digits:
  "\<forall>c \<in> set s. is_digit c \<Longrightarrow> s \<noteq> [] \<or> a \<Longrightarrow> \<exists>n. parse_digits 10 acc a s = Some n"
proof (induction s arbitrary: acc a)
  case Nil
  then show ?case by simp
next
  case (Cons c s)
  from Cons.prems(1) have c: "is_digit c" by simp
  from digit_val_digit[OF c] obtain v where v: "digit_val 10 c = Some v" by blast
  have "\<exists>n. parse_digits 10 (acc * 10 + v) True s = Some n"
    using Cons.IH[of True "acc * 10 + v"] Cons.prems(1) by simp
  then show ?case using digit_plain(3)[OF c] v by simp
qed

lemma py_int_digits:
  assumes "s \<noteq> []" and "\<forall>c \<in> set s. is_digit c"
  shows "if int_length s \<le> max_str_digits then \<exists>n. py_int s = Some n else py_int s = None"
proof -
  have strip: "int_strip s = s"
    using assms(2) digit_not_int_space by (intro int_strip_plain) blast
  obtain c cs where s: "s = c # cs" using assms(1) by (cases s) auto
  have c: "is_digit c" using assms(2) s by simp
  have nosign: "\<not> startswith s ''-''" "\<not> startswith s ''+''"
    using digit_plain[OF c] s by simp_all
  have plain: "filter (\<lambda>c. c \<noteq> CHR ''_'') s = s"
    using assms(2) digit_plain(3) by (intro filter_True) blast
  from parse_digits_digits[OF assms(2), of False 0] assms(1)
  obtain n where "parse_digits 10 0 False s = Some n" by blast
  then show ?thesis
    using nosign by (simp add: py_int_def py_int_base_def strip plain Let_def)
qed

lemma stat_tail_digits:
  "stat_tail s = Some (st, pp) \<Longrightarrow> pp \<noteq> [] \<and> (\<forall>c \<in> set pp. is_digit c)"
  by (auto simp: stat_tail_def split: list.splits if_splits dest: set_takeWhileD)

lemma lazy_name_digits:
  "lazy_name taken s = Some (nm, st, pp) \<Longrightarrow> pp \<noteq> [] \<and> (\<forall>c \<in> set pp. is_digit c)"
proof (induction s arbitrary: taken)
  case Nil
  then show ?case by simp
next
  case (Cons c cs)
  show ?case
  proof (cases "stat_tail cs")
    case None
    then show ?thesis using Cons by (simp split: if_splits)
  next
    case (Some r)
    obtain st' pp' where r: "r = (st', pp')" by (cases r)
    then show ?thesis using Cons.prems Some stat_tail_digits[of cs st' pp']
      by (simp split: if_splits)
  qed
qed

lemma match_stat_digits:
  "match_stat stat = Some (d, nm, st, pp) \<Longrightarrow>
     (if int_length pp \<le> max_str_digits then \<exists>n. py_int pp = Some n else py_int pp = None)"
proof -
  assume "match_stat stat = Some (d, nm, st, pp)"
  then have "lazy_name [] (drop 2 (dropWhile is_digit stat)) = Some (nm, st, pp)"
    by (auto simp: match_stat_def Let_def split: if_splits option.splits)
  from lazy_name_digits[OF this] show ?thesis by (intro py_int_digits) auto
qed

lemma get_process_info_linux_returns: "\<exists>result. get_process_info_linux fs p = Inr result"
  by (simp add: get_process_info_linux_def split: sum.splits)

lemma get_process_info_macos_returns: "\<exists>result. get_process_info_macos env t p = Inr result"
  by (simp add: get_process_info_macos_def split: sum.splits)

lemma get_process_info_returns: "\<exists>result. get_process_info env fs p = Inr result"
  using get_process_info_linux_returns[of fs p]
    get_process_info_macos_returns[of env "now fs" p]
  by (simp add: get_process_info_def)

lemma try_except_raises: "raises r \<Longrightarrow> try_except r d = d"
  by (cases r) (simp_all add: raises_def try_except_def)

lemma raises_map_sum: "raises (map_sum id f r) = raises r"
  by (cases r) (simp_all add: raises_def)

lemma linux_lookups_degrade:
  assumes "linux_record_parses fs p"
  shows "\<exists>info. get_process_info_linux fs p = Inr (Some info) \<and>
           (raises (cwd_block fs p) \<longrightarrow> cwd info = None) \<and>
           (raises (environ_block fs p) \<longrightarrow> env_vars info = Mapping.empty) \<and>
           (raises (rss_block fs p) \<longrightarrow> rss_kb info = 0) \<and>
           (raises (start_time_block fs p) \<longrightarrow> start_time info = now fs)"
proof -
  from assms obtain stat where stat: "read_proc fs p ''/stat'' = Inr stat"
    and m: "match_stat stat \<noteq> None"
    by (auto simp: linux_record_parses_def split: sum.splits option.splits)
  from m obtain d nm st pp where g: "match_stat stat = Some (d, nm, st, pp)"
    by (cases "match_stat stat") auto
  from assms stat g have "int_length pp \<le> max_str_digits"
    by (simp add: linux_record_parses_def)
  with match_stat_digits[OF g] obtain n where n: "py_int pp = Some n" by auto
  define info where "info =
    new_ProcessInfo p nm n
      (try_except (owner_block fs p) ''unknown'')
      (try_except (cmdline_block fs p nm) (''['' @ nm @ '']''))
      (try_except (start_time_block fs p) (now fs))
      (try_except (cwd_block fs p) None)
      (try_except (rss_block fs p) 0)
      (try_except (environ_block fs p) Mapping.empty)"
  have body: "get_process_info_linux_body fs p = Inr (Some info)"
    using stat g n
    by (simp add: get_process_info_linux_body_def Let_def info_def new_ProcessInfo_def)
  have run: "get_process_info_linux fs p = Inr (Some info)"
    by (simp add: get_process_info_linux_def body)
  have fields: "cwd info = try_except (cwd_block fs p) None"
    "env_vars info = try_except (environ_block fs p) Mapping.empty"
    "rss_kb info = try_except (rss_block fs p) 0"
    "start_time info = try_except (start_time_block fs p) (now fs)"
    by (simp_all add: info_def new_ProcessInfo_def)
  show ?thesis
    using run fields by (auto simp: try_except_raises)
qed

lemma linux_no_record:
  assumes "\<not> linux_record_parses fs p"
  shows "get_process_info_linux fs p = Inr None"
proof (cases "read_proc fs p ''/stat''")
  case (Inl e)
  then show ?thesis
    by (simp add: get_process_info_linux_def get_process_info_linux_body_def)
next
  case (Inr stat)
  show ?thesis
  proof (cases "match_stat stat")
    case None
    then show ?thesis using Inr
      by (simp add: get_process_info_linux_def get_process_info_linux_body_def)
  next
    case (Some r)
    obtain d nm st pp where r: "r = (d, nm, st, pp)" by (cases r)
    have g: "match_stat stat = Some (d, nm, st, pp)" using Some r by simp
    from assms Inr g have "\<not> int_length pp \<le> max_str_digits"
      by (simp add: linux_record_parses_def)
    with match_stat_digits[OF g] have "py_int pp = None" by simp
    then show ?thesis using Inr g
      by (simp add: get_process_info_linux_def get_process_info_linux_body_def)
  qed
qed

lemma macos_lookups_degrade:
  assumes parses: "ps_record_parses env p"
    and ptext: "py_str p = Some ptext"
    and c1: "run_command (subprocess_run env) [''ps'', ''-p'', ptext, ''-o'', ''command='']
               False = Inr (rc1, out1, err1)"
    and c2: "run_command (subprocess_run env)
               [''lsof'', ''-a'', ''-p'', ptext, ''-d'', ''cwd'', ''-Fn''] False
             = Inr (rc2, out2, err2)"
    and c3: "run_command (subprocess_run env) [''ps'', ''-p'', ptext, ''-E''] False
             = Inr (rc3, out3, err3)"
  shows "\<exists>info parts. get_process_info_macos env t p = Inr (Some info) \<and>
           ps_columns env p = Some parts \<and>
           (rc2 \<noteq> 0 \<longrightarrow> cwd info = None) \<and>
           (rc3 \<noteq> 0 \<longrightarrow> env_vars info = Mapping.empty) \<and>
           (elapsed_seconds (parts ! 4) = None \<longrightarrow> start_time info = t)"
proof -
  let ?ps = "run_command (subprocess_run env)
               [''ps'', ''-p'', ptext, ''-o'', ''pid=,ppid=,user=,comm=,etime=,rss='']
               False"
  from parses obtain parts where cols: "ps_columns env p = Some parts"
    and ints: "py_int (parts ! 0) \<noteq> None" "py_int (parts ! 1) \<noteq> None"
      "py_int (parts ! 5) \<noteq> None"
    by (auto simp: ps_record_parses_def split: option.splits)
  from cols ptext obtain rc out err where ps: "?ps = Inr (rc, out, err)"
    and ok: "rc = 0" "py_strip out \<noteq> []" "\<not> length (py_split_max 5 (py_strip out)) < 6"
    and parts: "parts = py_split_max 5 (py_strip out)"
    by (auto simp: ps_columns_def split: sum.splits if_splits)
  from ints obtain a b c where abc: "py_int (parts ! 0) = Some a" "py_int (parts ! 1) = Some b"
    "py_int (parts ! 5) = Some c"
    by auto
  define info where "info =
    new_ProcessInfo a (basename (parts ! 3)) b (parts ! 2)
      (if rc1 = 0 then py_strip out1 else basename (parts ! 3))
      (parse_elapsed_time_macos t (parts ! 4))
      (if rc2 = 0 then lsof_cwd_loop (py_split_on CHR 0x0A out2) else None)
      c
      (if rc3 = 0 then ps_env_loop (py_split_on CHR 0x0A out3) Mapping.empty
       else Mapping.empty)"
  have body: "get_process_info_macos_body env t p = Inr (Some info)"
    using ptext ps ok abc c1 c2 c3
    by (simp add: get_process_info_macos_body_def Let_def info_def parts)
  have run: "get_process_info_macos env t p = Inr (Some info)"
    by (simp add: get_process_info_macos_def body)
  have fields: "rc2 \<noteq> 0 \<longrightarrow> cwd info = None"
    "rc3 \<noteq> 0 \<longrightarrow> env_vars info = Mapping.empty"
    "elapsed_seconds (parts ! 4) = None \<longrightarrow> start_time info = t"
    by (simp_all add: info_def new_ProcessInfo_def parse_elapsed_time_macos_def)
  show ?thesis
    by (rule exI[of _ info], rule exI[of _ parts]) (simp add: run cols fields)
qed

text \<open>
  C9, as the claim states it, fails for the provider that runs \<open>ps\<close>. On the machine
  where the executable's path has a space, the first two columns are numbers and the
  sixth, read as the memory, is not: the snapshot is \<open>None\<close>. On the machine where the
  output of \<open>ps -E\<close> cannot be decoded, the record parses and only the environment
  lookup raises: the snapshot is \<open>None\<close> as well.
\<close>

theorem get_process_info_macos_invalidated_counterexample:
  "map_option (\<lambda>parts. (py_int (parts ! 0), py_int (parts ! 1), py_int (parts ! 5)))
     (ps_columns mac_space 501) = Some (Some 501, Some 1, None) \<and>
   get_process_info mac_space stat_only 501 = Inr None \<and>
   ps_record_parses mac_undecodable 501 \<and>
   raises (run_command (subprocess_run mac_undecodable) [''ps'', ''-p'', ''501'', ''-E''] False) \<and>
   get_process_info mac_undecodable stat_only 501 = Inr None"
  by code_simp

text \<open>
  C9, amended: \<open>get_process_info\<close> returns a record or \<open>None\<close> and never an
  exception, for every platform, every content of \<open>/proc\<close> and every pid. With the
  provider that reads \<open>/proc\<close>, a record is returned exactly when the stat record can
  be read, matches the pattern and has a parent pid within the digit limit of \<open>int\<close>;
  then a lookup of the working directory, the environment, the memory or the start time
  that raises leaves that field at its default. With the provider that runs \<open>ps\<close>,
  whenever the first record parses and the three further commands return, a record is
  returned, and a working-directory or environment command that exits with a status other
  than 0, or an elapsed time that does not parse, leaves that field at its default.
\<close>

theorem get_process_info_total:
  "(\<exists>result. get_process_info env fs p = Inr result) \<and>
   (linux_record_parses fs p \<longrightarrow>
      (\<exists>info. get_process_info_linux fs p = Inr (Some info) \<and>
         (raises (cwd_block fs p) \<longrightarrow> cwd info = None) \<and>
         (raises (environ_block fs p) \<longrightarrow> env_vars info = Mapping.empty) \<and>
         (raises (rss_block fs p) \<longrightarrow> rss_kb info = 0) \<and>
         (raises (start_time_block fs p) \<longrightarrow> start_time info = now fs))) \<and>
   (\<not> linux_record_parses fs p \<longrightarrow> get_process_info_linux fs p = Inr None) \<and>
   (ps_record_parses env p \<and> py_str p = Some ptext \<and>
    run_command (subprocess_run env) [''ps'', ''-p'', ptext, ''-o'', ''command=''] False
      = Inr (rc1, out1, err1) \<and>
    run_command (subprocess_run env)
      [''lsof'', ''-a'', ''-p'', ptext, ''-d'', ''cwd'', ''-Fn''] False
      = Inr (rc2, out2, err2) \<and>
    run_command (subprocess_run env) [''ps'', ''-p'', ptext, ''-E''] False
      = Inr (rc3, out3, err3) \<longrightarrow>
      (\<exists>info parts. get_process_info_macos env t p = Inr (Some info) \<and>
         ps_columns env p = Some parts \<and>
         (rc2 \<noteq> 0 \<longrightarrow> cwd info = None) \<and>
         (rc3 \<noteq> 0 \<longrightarrow> env_vars info = Mapping.empty) \<and>
         (elapsed_seconds (parts ! 4) = None \<longrightarrow> start_time info = t)))"
  using get_process_info_returns[of env fs p] linux_lookups_degrade[of fs p]
    linux_no_record[of fs p]
    macos_lookups_degrade[of env p ptext rc1 out1 err1 rc2 out2 err2 rc3 out3 err3 t]
  by blast

theorem get_process_info_total_witness:
  "(\<exists>info. get_process_info_linux stat_only 43 = Inr (Some info) \<and>
      cwd info = None \<and> env_vars info = Mapping.empty \<and> rss_kb info = 0 \<and>
      start_time info = now stat_only) \<and>
   get_process_info_linux stat_only 44 = Inr None \<and>
   (\<exists>info. get_process_info_macos mac_plain 63000000000000000 501 = Inr (Some info) \<and>
      cwd info = None \<and> env_vars info = Mapping.empty)"
proof -
  have l1: "linux_record_parses stat_only 43" by code_simp
  have l2: "raises (cwd_block stat_only 43)" by code_simp
  have l3: "raises (environ_block stat_only 43)" by code_simp
  have l4: "raises (rss_block stat_only 43)" by code_simp
  have l5: "raises (start_time_block stat_only 43)" by code_simp
  have l6: "\<not> linux_record_parses stat_only 44" by code_simp
  have m0: "py_str 501 = Some ''501''" by code_simp
  have m1: "ps_record_parses mac_plain 501" by code_simp
  have m2: "run_command (subprocess_run mac_plain)
              [''ps'', ''-p'', ''501'', ''-o'', ''command=''] False
            = Inr (0, ''/usr/sbin/cupsd -l'' @ [CHR 0x0A], [])"
    by code_simp
  have m3: "run_command (subprocess_run mac_plain)
              [''lsof'', ''-a'', ''-p'', ''501'', ''-d'', ''cwd'', ''-Fn''] False
            = Inr (1, [], [])"
    by code_simp
  have m4: "run_command (subprocess_run mac_plain) [''ps'', ''-p'', ''501'', ''-E''] False
            = Inr (1, [], [])"
    by code_simp
  have one: "(1::int) \<noteq> 0" by simp
  from get_process_info_total[where env = bare_linux and fs = stat_only and p = 43]
    l1 l2 l3 l4 l5
  have linux: "\<exists>info. get_process_info_linux stat_only 43 = Inr (Some info) \<and>
      cwd info = None \<and> env_vars info = Mapping.empty \<and> rss_kb info = 0 \<and>
      start_time info = now stat_only"
    by blast
  from get_process_info_total[where env = bare_linux and fs = stat_only and p = 44] l6
  have absent: "get_process_info_linux stat_only 44 = Inr None"
    by blast
  from get_process_info_total
         [where env = mac_plain and fs = stat_only and p = 501 and ptext = "''501''"
            and ?rc1.0 = 0 and ?out1.0 = "''/usr/sbin/cupsd -l'' @ [CHR 0x0A]"
            and ?err1.0 = "[]" and ?rc2.0 = 1 and ?out2.0 = "[]" and ?err2.0 = "[]"
            and ?rc3.0 = 1 and ?out3.0 = "[]" and ?err3.0 = "[]"
            and t = 63000000000000000]
       m0 m1 m2 m3 m4 one
  have macos: "\<exists>info. get_process_info_macos mac_plain 63000000000000000 501 =
        Inr (Some info) \<and> cwd info = None \<and> env_vars info = Mapping.empty"
    by blast
  from linux absent macos show ?thesis by blast
qed

section \<open>Properties of port resolution\<close>

subsection \<open>Deduplication\<close>

text \<open>
  C5: the claim asks for a result without two records of the same pid. The test
  \<open>proc_info not in processes\<close> compares whole records, and each snapshot carries the
  start time computed at the moment it was taken. When the lister prints pid 4242 on two
  lines, both snapshots are in the result; were the clock to stand still, the second one
  would be dropped. In the fallback the address is appended before the test: a process
  with a socket in each table is in the result twice, whatever the clock does.
\<close>

theorem find_process_by_port_same_pid_twice:
  "map_sum id (map pid)
     (find_process_by_port lsof_twice ticking_provider no_holder no_files 0 8080) =
   Inr [4242, 4242] \<and>
   map_sum id (map pid)
     (find_process_by_port lsof_twice steady_provider no_holder no_files 0 8080) =
   Inr [4242] \<and>
   map_sum id (map pid)
     (find_process_by_port bare_linux ticking_provider socket_holder dual_stack 0 8080) =
   Inr [4242, 4242] \<and>
   map_sum id (map (\<lambda>r. (pid r, listening_addresses r)))
     (find_process_by_port bare_linux steady_provider socket_holder dual_stack 0 8080) =
   Inr [(4242, [''127.0.0.1:8080'']),
        (4242, [''00000000000000000000000000000000:8080''])]"
  by code_simp

subsection \<open>Address rendering in the fallback\<close>

text \<open>
  C6: the claim asks for the bracketed form \<open>[hex]:port\<close> when the address field does
  not have 8 digits. For a listening socket on the IPv6 wildcard address, port 8080, the
  port resolver's fallback appends the bare digits, while the loop over the same table in
  \<open>detect_listening_ports_linux_proc\<close> appends the bracketed form.
\<close>

theorem fallback_ipv6_not_bracketed:
  "map_sum id (map listening_addresses)
     (find_process_by_port bare_linux ticking_provider socket_holder tcp6_only 0 8080) =
   Inr [[''00000000000000000000000000000000:8080'']] \<and>
   listening_addresses
     (listening_files {''34567''} tcp6_only [''/proc/net/tcp'', ''/proc/net/tcp6'']
        (new_ProcessInfo 4242 ''node'' 1 ''alice'' ''node server.js'' 1000 None 0
           Mapping.empty)) =
   [''[00000000000000000000000000000000]:8080'']"
  by code_simp

subsection \<open>The byte order of an IPv4 address\<close>

lemma split_on_from_no_sep: "sep \<notin> set b \<Longrightarrow> split_on_from w sep b = [w @ b]"
  by (induction b arbitrary: w) auto

lemma split_on_from_sep:
  "sep \<notin> set a \<Longrightarrow> split_on_from w sep (a @ sep # b) = (w @ a) # split_on_from [] sep b"
  by (induction a arbitrary: w) auto

lemma py_split_on_pair:
  "sep \<notin> set a \<Longrightarrow> sep \<notin> set b \<Longrightarrow> py_split_on sep (a @ sep # b) = [a, b]"
  by (simp add: py_split_on_def split_on_from_sep split_on_from_no_sep)

lemma hex_digit_range:
  assumes "is_hex_digit c"
  shows "(48 \<le> (of_char c :: int) \<and> (of_char c :: int) \<le> 57) \<or>
         (65 \<le> (of_char c :: int) \<and> (of_char c :: int) \<le> 70) \<or>
         (97 \<le> (of_char c :: int) \<and> (of_char c :: int) \<le> 102)"
  using assms by (auto simp: is_hex_digit_def digit_val_def Let_def split: if_splits)

lemma hex_digit_plain:
  assumes "is_hex_digit c"
  shows "\<not> is_int_space c" "c \<noteq> CHR ''-''" "c \<noteq> CHR ''+''" "c \<noteq> CHR ''_''"
    "c \<noteq> CHR ''x''" "c \<noteq> CHR ''X''" "c \<noteq> CHR '':''"
  using hex_digit_range[OF assms] by (auto simp: is_int_space_def Let_def)

lemma int_length_append: "int_length (xs @ ys) = int_length xs + int_length ys"
  by (induction xs) simp_all

lemma py_str_small:
  assumes "0 \<le> n" and "n < 1000"
  shows "py_str n = Some (decimal n)"
proof -
  have a: "n div 10 < 100" using assms by simp
  have b: "n div 10 div 10 < 10" using assms by simp
  have "int_length (int_digits 10 n) \<le> 3"
    using a b
    by (simp add: int_digits.simps[of 10 n] int_digits.simps[of 10 "n div 10"]
          int_digits.simps[of 10 "n div 10 div 10"] int_length_append)
  then show ?thesis using assms by (simp add: py_str_def max_str_digits_def)
qed

lemma digit_val_range: "digit_val 16 c = Some v \<Longrightarrow> 0 \<le> v \<and> v < 16"
  by (auto simp: digit_val_def Let_def split: if_splits)

lemma hex_byte_range:
  assumes "is_hex_digit h" and "is_hex_digit l"
  shows "0 \<le> hex_byte h l \<and> hex_byte h l < 1000"
proof -
  from assms obtain vh vl where v: "digit_val 16 h = Some vh" "digit_val 16 l = Some vl"
    by (auto simp: is_hex_digit_def)
  from digit_val_range[OF v(1)] digit_val_range[OF v(2)] show ?thesis
    by (simp add: hex_byte_def v)
qed

lemma py_int_hex_pair:
  assumes h: "is_hex_digit h" and l: "is_hex_digit l"
  shows "py_int_base 16 [h, l] = Some (hex_byte h l)"
proof -
  from h obtain vh where vh: "digit_val 16 h = Some vh" by (auto simp: is_hex_digit_def)
  from l obtain vl where vl: "digit_val 16 l = Some vl" by (auto simp: is_hex_digit_def)
  have strip: "int_strip [h, l] = [h, l]"
    using hex_digit_plain(1)[OF h] hex_digit_plain(1)[OF l] by (simp add: int_strip_def)
  show ?thesis
    using hex_digit_plain[OF h] hex_digit_plain[OF l] vh vl
    by (simp add: py_int_base_def strip hex_byte_def Let_def)
qed

lemma hex_pair_text_pair:
  assumes h: "is_hex_digit h" and l: "is_hex_digit l"
  shows "hex_pair_text [h, l] = Some (decimal (hex_byte h l))"
  using hex_byte_range[OF h l]
  by (simp add: hex_pair_text_def py_int_hex_pair[OF h l] py_str_small)

lemma ipv4_of_hex_reversed:
  assumes len: "length a = 8" and hex: "\<forall>c \<in> set a. is_hex_digit c"
  shows "ipv4_of_hex a = Some (reversed_dotted_decimal a)"
proof -
  from len obtain h0 h1 h2 h3 h4 h5 h6 h7 where a: "a = [h0, h1, h2, h3, h4, h5, h6, h7]"
    by (auto simp: length_Suc_conv eval_nat_numeral)
  have d: "is_hex_digit h0" "is_hex_digit h1" "is_hex_digit h2" "is_hex_digit h3"
    "is_hex_digit h4" "is_hex_digit h5" "is_hex_digit h6" "is_hex_digit h7"
    using hex a by auto
  show ?thesis
    unfolding a ipv4_of_hex_def reversed_dotted_decimal_def
    by (simp add: hex_pair_text_pair d)
qed

lemma proc_net_line_listening_ipv4:
  assumes "length (py_split line) \<ge> 10"
    and "py_split line ! 3 = ''0A''"
    and "py_split line ! 1 = addr @ '':'' @ port_field"
    and "length addr = 8" and "\<forall>c \<in> set addr. is_hex_digit c"
    and "CHR '':'' \<notin> set port_field"
    and "py_upper port_field = py_upper (format_04X port)"
    and "holder (py_split line ! 9) = Some owner"
    and "provider t owner = Some proc_info"
    and "py_str port = Some port_text"
  shows "proc_net_line provider holder port line (t, processes) =
           ((Suc t,
             if set_listening_addresses
                  (listening_addresses proc_info
                     @ [reversed_dotted_decimal addr @ '':'' @ port_text]) proc_info
                \<notin> set processes
             then processes
                  @ [set_listening_addresses
                       (listening_addresses proc_info
                          @ [reversed_dotted_decimal addr @ '':'' @ port_text]) proc_info]
             else processes), False)"
proof -
  have nocolon: "CHR '':'' \<notin> set addr"
    using assms(5) hex_digit_plain(7) by blast
  have ip: "ipv4_of_hex addr = Some (reversed_dotted_decimal addr)"
    by (rule ipv4_of_hex_reversed[OF assms(4,5)])
  have len: "\<not> length (py_split line) < 10"
    using assms(1) by simp
  have sp': "py_split_on CHR '':'' (addr @ '':'' @ port_field) = [addr, port_field]"
    using py_split_on_pair[OF nocolon assms(6)] by simp
  show ?thesis
    using len assms(2,3,4,7,8,9,10) ip sp'
    by (simp add: proc_net_line_def Let_def find_process_by_socket_inode_linux_def)
qed

lemma proc_net_line_keeps:
  "x \<in> set (snd st) \<Longrightarrow> x \<in> set (snd (fst (proc_net_line g h port line st)))"
  by (cases st) (auto simp: proc_net_line_def Let_def split: option.splits prod.splits)

lemma proc_net_loop_keeps:
  "x \<in> set (snd st) \<Longrightarrow> x \<in> set (snd (proc_net_loop g h port ls st))"
proof (induction ls arbitrary: st)
  case Nil
  then show ?case by simp
next
  case (Cons l ls)
  obtain st1 raised where r: "proc_net_line g h port l st = (st1, raised)"
    by (cases "proc_net_line g h port l st")
  have d: "x \<in> set (snd st1)"
    using proc_net_line_keeps[OF Cons.prems, of g h port l] r by simp
  show ?case using r d Cons.IH[OF d] by simp
qed

lemma proc_net_files_keeps:
  "x \<in> set (snd st) \<Longrightarrow> x \<in> set (snd (proc_net_files g h rf port fs st))"
proof (induction fs arbitrary: st)
  case Nil
  then show ?case by simp
next
  case (Cons f fs)
  show ?case
    unfolding proc_net_files.simps
    apply (rule Cons.IH)
    using Cons.prems by (auto split: option.splits intro: proc_net_loop_keeps)
qed

lemma proc_net_reach_loop:
  "proc_net_reach g h port before st = Some st1 \<Longrightarrow>
     proc_net_loop g h port (before @ rest) st = proc_net_loop g h port rest st1"
proof (induction before arbitrary: st)
  case Nil
  then show ?case by simp
next
  case (Cons l ls)
  obtain st2 raised where r: "proc_net_line g h port l st = (st2, raised)"
    by (cases "proc_net_line g h port l st")
  from Cons.prems r have nr: "\<not> raised"
    and reach: "proc_net_reach g h port ls st2 = Some st1"
    by (auto split: if_splits)
  show ?case using r nr Cons.IH[OF reach] by simp
qed

text \<open>
  C7: take a line of \<open>/proc/net/tcp\<close> in the listening state whose address field has
  eight hexadecimal digits and whose port field is the queried port, in a table of which
  no earlier line makes the loop raise, and let the socket's owner have a snapshot. Then
  the result of the fallback resolver contains the owner's record with one address
  appended: the four bytes of the field in reverse order, in dotted decimal, followed by a
  colon and the port. For \<open>0100007F:1F90\<close> and port 8080 that is
  \<open>127.0.0.1:8080\<close>.
\<close>

theorem find_process_by_port_linux_proc_ipv4_reversed:
  assumes "read_file ''/proc/net/tcp'' = Some content"
    and "file_lines content = before @ line # rest"
    and "proc_net_reach provider holder port before (t, []) = Some (t1, found)"
    and "length (py_split line) \<ge> 10"
    and "py_split line ! 3 = ''0A''"
    and "py_split line ! 1 = addr @ '':'' @ port_field"
    and "length addr = 8" and "\<forall>c \<in> set addr. is_hex_digit c"
    and "CHR '':'' \<notin> set port_field"
    and "py_upper port_field = py_upper (format_04X port)"
    and "holder (py_split line ! 9) = Some owner"
    and "provider t1 owner = Some proc_info"
    and "py_str port = Some port_text"
  shows "set_listening_addresses
           (listening_addresses proc_info
              @ [reversed_dotted_decimal addr @ '':'' @ port_text]) proc_info
         \<in> set (snd (find_process_by_port_linux_proc provider holder read_file t port))"
proof -
  let ?r = "set_listening_addresses
              (listening_addresses proc_info
                 @ [reversed_dotted_decimal addr @ '':'' @ port_text]) proc_info"
  let ?st = "(Suc t1, if ?r \<notin> set found then found @ [?r] else found)"
  have line: "proc_net_line provider holder port line (t1, found) = (?st, False)"
    by (rule proc_net_line_listening_ipv4
               [where line = line and addr = addr and port_field = port_field
                  and holder = holder and provider = provider and owner = owner,
                OF assms(4-13)])
  have mem: "?r \<in> set (snd ?st)" by simp
  have "proc_net_loop provider holder port (file_lines content) (t, []) =
          proc_net_loop provider holder port (line # rest) (t1, found)"
    unfolding assms(2) by (rule proc_net_reach_loop[OF assms(3)])
  also have "\<dots> = proc_net_loop provider holder port rest ?st"
    using line by simp
  finally have loop: "proc_net_loop provider holder port (file_lines content) (t, []) =
          proc_net_loop provider holder port rest ?st" .
  have "?r \<in> set (snd (proc_net_loop provider holder port (file_lines content) (t, [])))"
    unfolding loop by (rule proc_net_loop_keeps[OF mem])
  then have "?r \<in> set (snd (proc_net_files provider holder read_file port [''/proc/net/tcp6'']
                 (proc_net_loop provider holder port (file_lines content) (t, []))))"
    by (rule proc_net_files_keeps)
  then show ?thesis
    using assms(1) by (simp add: find_process_by_port_linux_proc_def)
qed

theorem find_process_by_port_linux_proc_ipv4_reversed_witness:
  "set_listening_addresses [''127.0.0.1:8080'']
     (new_ProcessInfo 4242 ''node'' 1 ''alice'' ''node server.js'' 1000 None 0 Mapping.empty)
   \<in> set (snd (find_process_by_port_linux_proc ticking_provider socket_holder tcp_only 0
                  8080)) \<and>
   map_sum id (map listening_addresses)
     (find_process_by_port bare_linux ticking_provider socket_holder tcp_only 0 8080) =
   Inr [[''127.0.0.1:8080'']]"
proof -
  have a1: "tcp_only ''/proc/net/tcp'' = Some (table_header @ [CHR 0x0A] @ tcp_line @ [CHR 0x0A])"
    by (simp add: tcp_only_def)
  have a2: "file_lines (table_header @ [CHR 0x0A] @ tcp_line @ [CHR 0x0A]) =
              [table_header @ [CHR 0x0A]] @ (tcp_line @ [CHR 0x0A]) # []"
    by code_simp
  have a3: "proc_net_reach ticking_provider socket_holder 8080 [table_header @ [CHR 0x0A]]
              (0, []) = Some (0, [])"
    by code_simp
  have a4: "length (py_split (tcp_line @ [CHR 0x0A])) \<ge> 10" by code_simp
  have a5: "py_split (tcp_line @ [CHR 0x0A]) ! 3 = ''0A''" by code_simp
  have a6: "py_split (tcp_line @ [CHR 0x0A]) ! 1 = ''0100007F'' @ '':'' @ ''1F90''"
    by code_simp
  have a7: "length ''0100007F'' = 8" by simp
  have a8: "\<forall>c \<in> set ''0100007F''. is_hex_digit c" by code_simp
  have a9: "CHR '':'' \<notin> set ''1F90''" by simp
  have a10: "py_upper ''1F90'' = py_upper (format_04X 8080)" by code_simp
  have a11: "socket_holder (py_split (tcp_line @ [CHR 0x0A]) ! 9) = Some 4242" by code_simp
  have a12: "ticking_provider 0 4242 =
              Some (new_ProcessInfo 4242 ''node'' 1 ''alice'' ''node server.js'' 1000 None 0
                      Mapping.empty)"
    by (simp add: ticking_provider_def)
  have a13: "py_str 8080 = Some ''8080''" by code_simp
  have r: "reversed_dotted_decimal ''0100007F'' = ''127.0.0.1''" by code_simp
  have l: "listening_addresses
             (new_ProcessInfo 4242 ''node'' 1 ''alice'' ''node server.js'' 1000 None 0
                Mapping.empty) = []"
    by (simp add: new_ProcessInfo_def)
  have e: "map_sum id (map listening_addresses)
     (find_process_by_port bare_linux ticking_provider socket_holder tcp_only 0 8080) =
   Inr [[''127.0.0.1:8080'']]"
    by code_simp
  from find_process_by_port_linux_proc_ipv4_reversed
         [where read_file = tcp_only and line = "tcp_line @ [CHR 0x0A]"
            and addr = "''0100007F''" and port_field = "''1F90''"
            and port = 8080 and holder = socket_holder and owner = 4242
            and provider = ticking_provider and t = 0,
          OF a1 a2 a3 a4 a5 a6 a7 a8 a9 a10 a11 a12 a13]
  have "set_listening_addresses
          (listening_addresses
             (new_ProcessInfo 4242 ''node'' 1 ''alice'' ''node server.js'' 1000 None 0
                Mapping.empty)
           @ [reversed_dotted_decimal ''0100007F'' @ '':'' @ ''8080''])
          (new_ProcessInfo 4242 ''node'' 1 ''alice'' ''node server.js'' 1000 None 0
             Mapping.empty)
        \<in> set (snd (find_process_by_port_linux_proc ticking_provider socket_holder tcp_only 0
                       8080))" .
  then show ?thesis using e by (simp add: r l)
qed

section \<open>Properties of the classifier\<close>

lemma set_field_pid [simp]:
  "pid (set_source v p) = pid p" "pid (set_source_detail v p) = pid p"
  "pid (set_container_name v p) = pid p" "pid (set_container_image v p) = pid p"
  by (cases p; simp)+

lemma set_field_ancestry [simp]:
  "ancestry (set_source v p) = ancestry p" "ancestry (set_source_detail v p) = ancestry p"
  "ancestry (set_container_name v p) = ancestry p"
  "ancestry (set_container_image v p) = ancestry p"
  by (cases p; simp)+

lemma set_field_source [simp]:
  "source (set_source v p) = v" "source (set_source_detail v p) = source p"
  "source (set_container_name v p) = source p" "source (set_container_image v p) = source p"
  by (cases p; simp)+

lemma set_field_source_detail [simp]:
  "source_detail (set_source_detail v p) = v"
  "source_detail (set_source v p) = source_detail p"
  by (cases p; simp)+

lemma set_field_container_name [simp]:
  "container_name (set_container_name v p) = v"
  "container_name (set_container_image v p) = container_name p"
  by (cases p; simp)+

lemma set_source_twice [simp]: "set_source v (set_source w p) = set_source v p"
  by (cases p) simp

lemma set_source_detail_twice [simp]:
  "set_source_detail v (set_source_detail w p) = set_source_detail v p"
  by (cases p) simp

lemma set_source_detail_swap [simp]:
  "set_source v (set_source_detail w p) = set_source_detail w (set_source v p)"
  by (cases p) simp

lemma systemd_unit_loop_cases:
  "(\<forall>q. systemd_unit_loop ls q = q) \<or>
   (\<exists>m. \<forall>q. systemd_unit_loop ls q = set_source_detail (Some m) q)"
  by (induction ls) (auto split: option.splits)

lemma docker_fields_pid [simp]: "pid (docker_fields n i q) = pid q"
  by (simp add: docker_fields_def)

lemma docker_fields_ancestry [simp]: "ancestry (docker_fields n i q) = ancestry q"
  by (simp add: docker_fields_def)

lemma docker_fields_source [simp]: "source (docker_fields n i q) = source q"
  by (simp add: docker_fields_def)

lemma docker_fields_twice [simp]:
  "docker_fields n i (docker_fields m j q) = docker_fields n i q"
  by (cases q) (simp add: docker_fields_def)

lemma docker_fields_set_source [simp]:
  "set_source v (docker_fields n i q) = docker_fields n i (set_source v q)"
  by (cases q) (simp add: docker_fields_def)

lemma docker_ps_loop_cases:
  "(\<forall>q. pid q = k \<longrightarrow> docker_ps_loop ls q = Inr q) \<or>
   (\<exists>n i. \<forall>q. pid q = k \<longrightarrow> docker_ps_loop ls q = Inr (docker_fields n i q)) \<or>
   (\<forall>q. pid q = k \<longrightarrow> docker_ps_loop ls q = Inl ValueError)"
proof (induction ls)
  case Nil
  then show ?case by simp
next
  case (Cons l ls)
  show ?case
  proof (cases "py_str k")
    case None
    then show ?thesis by simp
  next
    case (Some pid_text)
    show ?thesis
    proof (cases "py_in pid_text l \<and> length (py_split l) > 1")
      case False
      then have "\<forall>q. pid q = k \<longrightarrow> docker_ps_loop (l # ls) q = docker_ps_loop ls q"
        using Some by (auto simp: Let_def)
      then show ?thesis using Cons.IH by auto
    next
      case True
      define n where "n = last (py_split l)"
      define i where "i = py_split l ! 1"
      have step: "\<forall>q. pid q = k \<longrightarrow>
                    docker_ps_loop (l # ls) q = docker_ps_loop ls (docker_fields n i q)"
        using True Some by (simp add: Let_def docker_fields_def n_def i_def)
      from Cons.IH consider
          (same) "\<forall>q. pid q = k \<longrightarrow> docker_ps_loop ls q = Inr q"
        | (fields) n' i' where
            "\<forall>q. pid q = k \<longrightarrow> docker_ps_loop ls q = Inr (docker_fields n' i' q)"
        | (raised) "\<forall>q. pid q = k \<longrightarrow> docker_ps_loop ls q = Inl ValueError"
        by blast
      then show ?thesis
      proof cases
        case same
        then have "\<forall>q. pid q = k \<longrightarrow> docker_ps_loop (l # ls) q = Inr (docker_fields n i q)"
          using step by simp
        then show ?thesis by blast
      next
        case fields
        then have "\<forall>q. pid q = k \<longrightarrow>
                     docker_ps_loop (l # ls) q = Inr (docker_fields n' i' q)"
          using step by simp
        then show ?thesis by blast
      next
        case raised
        then have "\<forall>q. pid q = k \<longrightarrow> docker_ps_loop (l # ls) q = Inl ValueError"
          using step by simp
        then show ?thesis by blast
      qed
    qed
  qed
qed

lemma detect_source_loop_idem:
  "detect_source_loop env xs p = Inr p' \<Longrightarrow>
     pid p' = pid p \<and> ancestry p' = ancestry p \<and> \<not> falsy (source p') \<and>
     detect_source_loop env xs p' = Inr p'"
proof (induction xs)
  case Nil
  then show ?case by (auto simp: falsy_def split: if_splits)
next
  case (Cons a xs)
  let ?sys = "name a = ''systemd'' \<and> pid a \<noteq> 1"
  let ?lau = "name a = ''launchd''"
  let ?doc = "py_in ''docker'' (name a) \<or> py_in ''containerd'' (name a)"
  let ?pm2 = "py_in ''PM2'' (cmd a) \<or> py_in ''pm2'' (name a)"
  let ?sup = "py_in ''supervisor'' (name a)"
  let ?cro = "name a = ''cron'' \<or> py_in ''CRON'' (cmd a)"
  let ?she = "name a \<in> set shell_names"
  consider (sys) ?sys | (lau) "\<not> ?sys" ?lau | (doc) "\<not> ?sys" "\<not> ?lau" ?doc
    | (pm2) "\<not> ?sys" "\<not> ?lau" "\<not> ?doc" ?pm2
    | (sup) "\<not> ?sys" "\<not> ?lau" "\<not> ?doc" "\<not> ?pm2" ?sup
    | (cro) "\<not> ?sys" "\<not> ?lau" "\<not> ?doc" "\<not> ?pm2" "\<not> ?sup" ?cro
    | (she) "\<not> ?sys" "\<not> ?lau" "\<not> ?doc" "\<not> ?pm2" "\<not> ?sup" "\<not> ?cro" ?she
    | (none) "\<not> ?sys" "\<not> ?lau" "\<not> ?doc" "\<not> ?pm2" "\<not> ?sup" "\<not> ?cro" "\<not> ?she"
    by blast
  then show ?case
  proof cases
    case sys
    show ?thesis
    proof (cases "IS_LINUX env")
      case False
      then show ?thesis using sys Cons.prems by (auto simp: falsy_def)
    next
      case True
      show ?thesis
      proof (cases "py_str (pid p)")
        case None
        then show ?thesis using sys True Cons.prems by simp
      next
        case (Some pid_text)
        show ?thesis
        proof (cases "run_command (subprocess_run env) [''systemctl'', ''status'', pid_text] False")
          case (Inl e)
          then show ?thesis using sys True Some Cons.prems by simp
        next
          case (Inr r)
          obtain rc out err where r: "r = (rc, out, err)" by (cases r) auto
          show ?thesis
          proof (cases "rc = 0")
            case False
            then show ?thesis using sys True Some Inr r Cons.prems by (auto simp: falsy_def)
          next
            case rc0: True
            have p': "p' = systemd_unit_loop (py_splitlines out)
                             (set_source (Some ''systemd'') p)"
              using sys True Some Inr r rc0 Cons.prems by simp
            from systemd_unit_loop_cases[of "py_splitlines out"]
            show ?thesis
            proof
              assume a: "\<forall>q. systemd_unit_loop (py_splitlines out) q = q"
              then show ?thesis using sys True Some Inr r rc0 p' by (simp add: falsy_def)
            next
              assume "\<exists>m. \<forall>q. systemd_unit_loop (py_splitlines out) q =
                              set_source_detail (Some m) q"
              then obtain m where
                a: "\<forall>q. systemd_unit_loop (py_splitlines out) q =
                            set_source_detail (Some m) q"
                by blast
              then show ?thesis using sys True Some Inr r rc0 p' by (simp add: falsy_def)
            qed
          qed
        qed
      qed
    qed
  next
    case lau
    show ?thesis using Cons.prems by (auto simp: falsy_def lau)
  next
    case doc
    show ?thesis
    proof (cases "run_command (subprocess_run env) [''docker'', ''ps'', ''--no-trunc''] False")
      case (Inl e)
      then show ?thesis using Cons.prems by (simp add: doc)
    next
      case (Inr r)
      obtain rc out err where r: "r = (rc, out, err)" by (cases r) auto
      show ?thesis
      proof (cases "rc = 0")
        case False
        then show ?thesis using Inr r Cons.prems by (auto simp: falsy_def doc)
      next
        case rc0: True
        have p': "docker_ps_loop (py_splitlines out) (set_source (Some ''docker'') p) = Inr p'"
          using Inr r rc0 Cons.prems by (simp add: doc)
        from docker_ps_loop_cases[of "pid p" "py_splitlines out"] consider
            (same) "\<forall>q. pid q = pid p \<longrightarrow> docker_ps_loop (py_splitlines out) q = Inr q"
          | (fields) n i where
              "\<forall>q. pid q = pid p \<longrightarrow>
                 docker_ps_loop (py_splitlines out) q = Inr (docker_fields n i q)"
          | (raised) "\<forall>q. pid q = pid p \<longrightarrow>
                 docker_ps_loop (py_splitlines out) q = Inl ValueError"
          by blast
        then show ?thesis
        proof cases
          case same
          then have "p' = set_source (Some ''docker'') p" using p' by simp
          then show ?thesis using same Inr r rc0 by (simp add: falsy_def doc)
        next
          case fields
          then have "p' = docker_fields n i (set_source (Some ''docker'') p)" using p' by simp
          then show ?thesis using fields Inr r rc0 by (simp add: falsy_def doc)
        next
          case raised
          then show ?thesis using p' by simp
        qed
      qed
    qed
  next
    case pm2
    show ?thesis using Cons.prems by (auto simp: falsy_def pm2)
  next
    case sup
    show ?thesis using Cons.prems by (auto simp: falsy_def sup)
  next
    case cro
    show ?thesis using Cons.prems by (auto simp: falsy_def cro)
  next
    case she
    show ?thesis using Cons.prems by (auto simp: falsy_def she)
  next
    case none
    show ?thesis using Cons by (simp add: none)
  qed
qed

lemma detect_source_loop_no_match:
  "\<forall>a \<in> set xs. \<not> matches_rule a \<Longrightarrow>
     detect_source_loop env xs p =
       Inr (if falsy (source p) then set_source (Some ''unknown'') p else p)"
  by (induction xs) (auto simp: matches_rule_def)

text \<open>
  C8: a run of \<open>detect_source\<close> that returns, run again on the record it returned (same
  ancestry, same command outputs), returns that record unchanged; so \<open>source\<close>,
  \<open>source_detail\<close>, \<open>container_name\<close> and \<open>container_image\<close> keep their values. The
  category is never absent or empty after a run, and for a process that has no category
  yet and no ancestor matching a rule it is \<open>unknown\<close>, after the first run and after
  the second.
\<close>

theorem detect_source_idempotent:
  assumes "detect_source env proc = Inr proc1"
  shows "detect_source env proc1 = Inr proc1 \<and>
         source proc1 \<noteq> None \<and>
         ((\<forall>a \<in> set (ancestry proc). \<not> matches_rule a) \<and> source proc = None
            \<longrightarrow> source proc1 = Some ''unknown'')"
proof -
  from assms have run: "detect_source_loop env (rev (ancestry proc)) proc = Inr proc1"
    by (simp add: detect_source_def)
  note idem = detect_source_loop_idem[OF run]
  have again: "detect_source env proc1 = Inr proc1"
    using idem by (simp add: detect_source_def)
  have present: "source proc1 \<noteq> None"
    using idem by (auto simp: falsy_def)
  have unknown: "source proc1 = Some ''unknown''"
    if "\<forall>a \<in> set (ancestry proc). \<not> matches_rule a" and "source proc = None"
  proof -
    from that(1) have "\<forall>a \<in> set (rev (ancestry proc)). \<not> matches_rule a" by simp
    from detect_source_loop_no_match[OF this, of env proc] run that(2)
    show ?thesis by (auto simp: falsy_def)
  qed
  from again present unknown show ?thesis by blast
qed

theorem detect_source_idempotent_witness:
  "detect_source bare_linux unsupervised_target =
     Inr (set_source (Some ''unknown'') unsupervised_target) \<and>
   detect_source bare_linux (set_source (Some ''unknown'') unsupervised_target) =
     Inr (set_source (Some ''unknown'') unsupervised_target) \<and>
   source (set_source (Some ''unknown'') unsupervised_target) = Some ''unknown''"
proof -
  have nm: "\<forall>a \<in> set (ancestry unsupervised_target). \<not> matches_rule a"
    by (simp add: unsupervised_target_def snapshot_of_def new_ProcessInfo_def
          matches_rule_def shell_names_def)
  have fresh: "source unsupervised_target = None"
    by (simp add: unsupervised_target_def snapshot_of_def new_ProcessInfo_def)
  have "\<forall>a \<in> set (rev (ancestry unsupervised_target)). \<not> matches_rule a"
    using nm by simp
  from detect_source_loop_no_match[OF this, of bare_linux unsupervised_target] fresh
  have run: "detect_source bare_linux unsupervised_target =
               Inr (set_source (Some ''unknown'') unsupervised_target)"
    by (simp add: detect_source_def falsy_def)
  from detect_source_idempotent[OF run] nm fresh run show ?thesis by simp
qed

subsection \<open>Which ancestor decides\<close>

lemma shell_name_matches_no_earlier_rule:
  assumes "n \<in> set shell_names"
  shows "n \<noteq> ''systemd'' \<and> n \<noteq> ''launchd'' \<and> \<not> py_in ''docker'' n \<and>
         \<not> py_in ''containerd'' n \<and> \<not> py_in ''pm2'' n \<and> \<not> py_in ''supervisor'' n \<and>
         n \<noteq> ''cron''"
  using assms by (auto simp: shell_names_def)

lemma detect_source_loop_skip:
  "\<forall>b \<in> set xs. \<not> matches_rule b \<Longrightarrow>
     detect_source_loop env (xs @ ys) p = detect_source_loop env ys p"
  by (induction xs) (auto simp: matches_rule_def)

lemma detect_source_loop_first:
  assumes "matches_rule a"
  shows "detect_source_loop env (a # rest) p = detect_source_loop env [a] p"
proof (cases "name a \<in> set shell_names")
  case True
  then show ?thesis by simp
next
  case False
  then show ?thesis using assms by (auto simp: matches_rule_def)
qed

lemma systemd_unit_loop_source [simp]: "source (systemd_unit_loop ls q) = source q"
  using systemd_unit_loop_cases[of ls] by auto

lemma detect_source_loop_docker_only:
  assumes "detect_source_loop env [a] p = Inr p1" and "matches_rule a"
    and "source p1 = Some ''docker''"
  shows "py_in ''docker'' (name a) \<or> py_in ''containerd'' (name a)"
proof (rule ccontr)
  assume nd: "\<not> (py_in ''docker'' (name a) \<or> py_in ''containerd'' (name a))"
  show False
  proof (cases "name a = ''systemd'' \<and> pid a \<noteq> 1")
    case True
    then have "source p1 = Some ''systemd''"
      using assms(1)
      by (auto simp: Let_def split: if_splits option.splits sum.splits prod.splits)
    then show False using assms(3) by simp
  next
    case False
    then have "source p1 \<in> {Some ''launchd'', Some ''pm2'', Some ''supervisor'', Some ''cron'',
                              Some ''interactive shell''}"
      using assms(1,2) nd by (auto simp: matches_rule_def split: if_splits)
    then show False using assms(3) by auto
  qed
qed

text \<open>
  C1, as the claim states it, fails: for the ancestry init (pid 1), systemd unit manager,
  docker daemon, bash, the scan starts at bash, the ancestor nearest the target, and bash
  matches the shell rule, so the category is \<open>interactive shell\<close> and not \<open>docker\<close>.
\<close>

theorem detect_source_docker_shell_counterexample:
  "\<not> map_sum id source (detect_source bare_linux docker_shell_target) = Inr (Some ''docker'')"
  by code_simp

text \<open>
  C1, amended: the ancestor that decides is the one nearest the target among those that
  match a rule. The result is what the loop gives for that ancestor alone, whatever the
  ancestors further out are. When it is a shell of the fixed name set whose command line
  contains neither \<open>PM2\<close> nor \<open>CRON\<close>, the category is \<open>interactive shell\<close> with
  the shell's name as detail; and the category is \<open>docker\<close> only when the name of that
  ancestor contains \<open>docker\<close> or \<open>containerd\<close>.
\<close>

theorem detect_source_nearest_match:
  assumes "ancestry proc = older @ [a] @ nearer"
    and "\<forall>b \<in> set nearer. \<not> matches_rule b"
    and "matches_rule a"
  shows "detect_source env proc = detect_source_loop env [a] proc \<and>
         (name a \<in> set shell_names \<and> \<not> py_in ''PM2'' (cmd a) \<and> \<not> py_in ''CRON'' (cmd a)
            \<longrightarrow> detect_source env proc =
                  Inr (set_source_detail (Some (name a))
                         (set_source (Some ''interactive shell'') proc))) \<and>
         (\<forall>proc1. detect_source env proc = Inr proc1 \<and> source proc1 = Some ''docker''
            \<longrightarrow> py_in ''docker'' (name a) \<or> py_in ''containerd'' (name a))"
proof -
  have "\<forall>b \<in> set (rev nearer). \<not> matches_rule b" using assms(2) by simp
  from detect_source_loop_skip[OF this, of env "a # rev older" proc]
  have "detect_source env proc = detect_source_loop env (a # rev older) proc"
    using assms(1) by (simp add: detect_source_def)
  then have one: "detect_source env proc = detect_source_loop env [a] proc"
    using detect_source_loop_first[OF assms(3), of env "rev older" proc] by simp
  have shell: "detect_source_loop env [a] proc =
                 Inr (set_source_detail (Some (name a))
                        (set_source (Some ''interactive shell'') proc))"
    if "name a \<in> set shell_names" "\<not> py_in ''PM2'' (cmd a)" "\<not> py_in ''CRON'' (cmd a)"
    using that shell_name_matches_no_earlier_rule[OF that(1)] by simp
  have docker: "py_in ''docker'' (name a) \<or> py_in ''containerd'' (name a)"
    if "detect_source_loop env [a] proc = Inr proc1" "source proc1 = Some ''docker''" for proc1
    using detect_source_loop_docker_only[OF that(1) assms(3) that(2)] .
  from one shell docker show ?thesis by metis
qed

theorem detect_source_nearest_match_witness:
  "detect_source bare_linux docker_shell_target =
     Inr (set_source_detail (Some ''bash'')
            (set_source (Some ''interactive shell'') docker_shell_target)) \<and>
   map_sum id source (detect_source bare_linux docker_shell_target) =
     Inr (Some ''interactive shell'') \<and>
   map_sum id source_detail (detect_source bare_linux docker_shell_target) =
     Inr (Some ''bash'')"
proof -
  let ?older = "[snapshot_of 1 ''systemd'' 0, snapshot_of 900 ''systemd'' 1,
                 snapshot_of 1200 ''dockerd'' 900]"
  let ?shell = "snapshot_of 1300 ''bash'' 1200"
  have a: "ancestry docker_shell_target = ?older @ [?shell] @ []"
    by (simp add: docker_shell_target_def snapshot_of_def new_ProcessInfo_def)
  have e: "\<forall>b \<in> set []. \<not> matches_rule b" by simp
  have n: "name ?shell \<in> set shell_names"
    by (simp add: snapshot_of_def new_ProcessInfo_def shell_names_def)
  have m: "matches_rule ?shell"
    using n by (simp add: matches_rule_def)
  have p: "\<not> py_in ''PM2'' (cmd ?shell)"
    by (simp add: snapshot_of_def new_ProcessInfo_def)
  have c: "\<not> py_in ''CRON'' (cmd ?shell)"
    by (simp add: snapshot_of_def new_ProcessInfo_def)
  have nm: "name ?shell = ''bash''"
    by (simp add: snapshot_of_def new_ProcessInfo_def)
  from detect_source_nearest_match[OF a e m, of bare_linux] n p c nm
  have "detect_source bare_linux docker_shell_target =
          Inr (set_source_detail (Some ''bash'')
                 (set_source (Some ''interactive shell'') docker_shell_target))"
    by simp
  then show ?thesis by simp
qed

end
